theory Spec2Isabelle
  imports Main
begin

section \<open>Python values, exceptions and outcomes\<close>

text \<open>
  The content index of \<^verbatim>\<open>main.py\<close> is whatever \<^verbatim>\<open>json.load\<close> returns: a dynamically
  typed value. A Python \<^verbatim>\<open>dict\<close> keeps its keys in insertion order, so it is an
  association list here; floats are carried by their literal, since the program never
  computes with them.
\<close>

datatype json =
    JNull
  | JBool bool
  | JInt int
  | JFloat string
  | JStr string
  | JArr "json list"
  | JObj "(string \<times> json) list"

datatype exn =
    HTTPException nat string
  | RequestValidationError
  | ValidationError
  | TypeError
  | AttributeError
  | KeyError string
  | NameError string

text \<open>
  A call either returns, raises, or never returns: \<open>Blocks\<close> is a thread waiting for a
  lock that nobody will release.
\<close>

datatype 'a outcome = Returns 'a | Raises exn | Blocks

subsection \<open>Dictionaries\<close>

text \<open>\<^verbatim>\<open>d[k] = v\<close>: an existing key keeps its position, a new key goes last.\<close>

fun dict_set :: "'k \<Rightarrow> 'v \<Rightarrow> ('k \<times> 'v) list \<Rightarrow> ('k \<times> 'v) list" where
  "dict_set k v [] = [(k, v)]"
| "dict_set k v ((k', v') # kvs) =
     (if k' = k then (k, v) # kvs else (k', v') # dict_set k v kvs)"

text \<open>\<^verbatim>\<open>x in s\<close> for two strings: \<open>x\<close> occurs in \<open>s\<close> as a contiguous piece.\<close>

fun is_substring :: "string \<Rightarrow> string \<Rightarrow> bool" where
  "is_substring x [] = (x = [])"
| "is_substring x (c # cs) = (take (length x) (c # cs) = x \<or> is_substring x cs)"

text \<open>\<^verbatim>\<open>k in data\<close>, with \<open>k\<close> a string.\<close>

fun py_contains :: "json \<Rightarrow> string \<Rightarrow> exn + bool" where
  "py_contains (JObj kvs) k = Inr (k \<in> set (map fst kvs))"
| "py_contains (JArr xs) k = Inr (JStr k \<in> set xs)"
| "py_contains (JStr s) k = Inr (is_substring k s)"
| "py_contains _ k = Inl TypeError"

text \<open>\<^verbatim>\<open>data[k]\<close>, with \<open>k\<close> a string: only a dict can be indexed by a string.\<close>

fun py_getitem :: "json \<Rightarrow> string \<Rightarrow> exn + json" where
  "py_getitem (JObj kvs) k = (case map_of kvs k of None \<Rightarrow> Inl (KeyError k) | Some v \<Rightarrow> Inr v)"
| "py_getitem _ k = Inl TypeError"

text \<open>\<^verbatim>\<open>data[k] = v\<close>, with \<open>k\<close> a string.\<close>

fun py_setitem :: "json \<Rightarrow> string \<Rightarrow> json \<Rightarrow> exn + json" where
  "py_setitem (JObj kvs) k v = Inr (JObj (dict_set k v kvs))"
| "py_setitem _ k v = Inl TypeError"

text \<open>\<^verbatim>\<open>data.setdefault(k, v)\<close>: a method of dicts only; the dict after the call.\<close>

fun py_setdefault :: "json \<Rightarrow> string \<Rightarrow> json \<Rightarrow> exn + json" where
  "py_setdefault (JObj kvs) k v =
     Inr (JObj (if k \<in> set (map fst kvs) then kvs else kvs @ [(k, v)]))"
| "py_setdefault _ k v = Inl AttributeError"

text \<open>\<^verbatim>\<open>data.items()\<close>.\<close>

fun py_items :: "json \<Rightarrow> exn + (string \<times> json) list" where
  "py_items (JObj kvs) = Inr kvs"
| "py_items _ = Inl AttributeError"

section \<open>The content store\<close>

definition FIXED_SLOT_KEYS :: "string list" where
  "FIXED_SLOT_KEYS =
     [''servicio_1'', ''servicio_2'', ''servicio_3'', ''servicio_4'',
      ''about_img'', ''team_group'',
      ''staff_1'', ''staff_2'', ''staff_3'', ''staff_4'', ''staff_5'', ''staff_6'']"

text \<open>The literal bound to \<^verbatim>\<open>DEFAULT_CONTENT\<close> when the module is loaded.\<close>

definition DEFAULT_CONTENT :: json where
  "DEFAULT_CONTENT =
     JObj [(''heroVideo'', JNull),
           (''slots'', JObj (map (\<lambda>k. (k, JNull)) FIXED_SLOT_KEYS)),
           (''gallery'', JArr [])]"

text \<open>
  What \<^verbatim>\<open>content.json\<close> is to \<^verbatim>\<open>load_content\<close>: missing, present but such that
  opening or parsing it raises (the text is kept), or present and parsed to a value.
  \<^verbatim>\<open>json.dump\<close> followed by \<^verbatim>\<open>json.load\<close> gives the value back, so a saved file is
  the value saved.
\<close>

datatype persisted = Absent | Unparseable string | Parses json

text \<open>Calls to the collaborators, in the order they were made.\<close>

datatype call =
    CloudinaryUpload string string
  | LocalWrite string "nat list"
  | CloudinaryDestroy json
  | LocalUnlink string
  | Save json

text \<open>
  The mutable state the handlers share: the file, the object bound to the global
  \<^verbatim>\<open>DEFAULT_CONTENT\<close> (handlers can reach and mutate it), the lock, the files under
  \<^verbatim>\<open>UPLOADS_DIR\<close>, and the log of calls.
\<close>

record state =
  content_file :: persisted
  default_content :: json
  lock_held :: bool
  uploads :: "(string \<times> nat list) list"
  calls :: "call list"

definition init_state :: state where
  "init_state = \<lparr>content_file = Absent, default_content = DEFAULT_CONTENT,
                 lock_held = False, uploads = [], calls = []\<rparr>"

text \<open>
  \<^verbatim>\<open>with LOCK:\<close> on a \<^verbatim>\<open>threading.Lock\<close>, which is not reentrant: acquiring it while it
  is held waits forever. It is released when the body returns or raises.
\<close>

definition with_LOCK :: "(state \<Rightarrow> 'a outcome \<times> state) \<Rightarrow> state \<Rightarrow> 'a outcome \<times> state" where
  "with_LOCK body s =
     (if lock_held s then (Blocks, s)
      else (case body (s\<lparr>lock_held := True\<rparr>) of
              (Blocks, s') \<Rightarrow> (Blocks, s')
            | (r, s') \<Rightarrow> (r, s'\<lparr>lock_held := False\<rparr>)))"

definition save_content :: "json \<Rightarrow> state \<Rightarrow> unit outcome \<times> state" where
  "save_content data =
     with_LOCK (\<lambda>s. (Returns (), s\<lparr>content_file := Parses data, calls := calls s @ [Save data]\<rparr>))"

text \<open>
  One round of the loop of \<^verbatim>\<open>load_content\<close> over the items of
  \<^verbatim>\<open>DEFAULT_CONTENT["slots"]\<close>. \<^verbatim>\<open>data["slots"].setdefault(k, v)\<close> mutates the dict
  inside \<open>data\<close>; the last step stores the mutated dict back.
\<close>

fun merge_slots :: "(string \<times> json) list \<Rightarrow> json \<Rightarrow> exn + json" where
  "merge_slots [] data = Inr data"
| "merge_slots ((k, v) # rest) data =
     (case py_contains data ''slots'' of Inl e \<Rightarrow> Inl e | Inr present \<Rightarrow>
      (case (if \<not> present then py_setitem data ''slots'' (JObj []) else Inr data) of
         Inl e \<Rightarrow> Inl e | Inr data1 \<Rightarrow>
       (case py_getitem data1 ''slots'' of Inl e \<Rightarrow> Inl e | Inr sl \<Rightarrow>
        (case py_setdefault sl k v of Inl e \<Rightarrow> Inl e | Inr sl' \<Rightarrow>
         (case py_setitem data1 ''slots'' sl' of Inl e \<Rightarrow> Inl e | Inr data2 \<Rightarrow>
            merge_slots rest data2)))))"

text \<open>Lines 78 to 85 of \<^verbatim>\<open>load_content\<close>, with the default object as \<open>dflt\<close>.\<close>

definition merge_defaults :: "json \<Rightarrow> json \<Rightarrow> exn + json" where
  "merge_defaults dflt data =
     (case py_getitem dflt ''slots'' of Inl e \<Rightarrow> Inl e | Inr ds \<Rightarrow>
      (case py_items ds of Inl e \<Rightarrow> Inl e | Inr its \<Rightarrow>
       (case merge_slots its data of Inl e \<Rightarrow> Inl e | Inr d1 \<Rightarrow>
        (case py_contains d1 ''gallery'' of Inl e \<Rightarrow> Inl e | Inr g \<Rightarrow>
         (case (if \<not> g then py_setitem d1 ''gallery'' (JArr []) else Inr d1) of
            Inl e \<Rightarrow> Inl e | Inr d2 \<Rightarrow>
          (case py_contains d2 ''heroVideo'' of Inl e \<Rightarrow> Inl e | Inr h \<Rightarrow>
             (if \<not> h then py_setitem d2 ''heroVideo'' JNull else Inr d2)))))))"

text \<open>
  What \<^verbatim>\<open>load_content\<close> hands to its caller: the object bound to \<^verbatim>\<open>DEFAULT_CONTENT\<close>
  itself (no copy is made), or an object of its own built by \<^verbatim>\<open>json.load\<close>.
\<close>

datatype docref = SharedDefault | Fresh json

definition deref :: "state \<Rightarrow> docref \<Rightarrow> json" where
  "deref s r = (case r of SharedDefault \<Rightarrow> default_content s | Fresh d \<Rightarrow> d)"

text \<open>A mutation of the object behind a reference: the global changes when it is shared.\<close>

definition assign :: "docref \<Rightarrow> json \<Rightarrow> state \<Rightarrow> docref \<times> state" where
  "assign r d s =
     (case r of SharedDefault \<Rightarrow> (SharedDefault, s\<lparr>default_content := d\<rparr>)
              | Fresh _ \<Rightarrow> (Fresh d, s))"

definition load_content :: "state \<Rightarrow> docref outcome \<times> state" where
  "load_content =
     with_LOCK (\<lambda>s.
       (case content_file s of
          Absent \<Rightarrow>
            (case save_content (default_content s) s of
               (Returns _, s') \<Rightarrow> (Returns SharedDefault, s')
             | (Raises e, s') \<Rightarrow> (Raises e, s')
             | (Blocks, s') \<Rightarrow> (Blocks, s'))
        | file \<Rightarrow>
            (let data = (case file of Parses d \<Rightarrow> Fresh d | _ \<Rightarrow> SharedDefault)
             in (case merge_defaults (default_content s) (deref s data) of
                   Inl e \<Rightarrow> (Raises e, s)
                 | Inr d' \<Rightarrow> (case assign data d' s of (r, s') \<Rightarrow> (Returns r, s'))))))"

subsection \<open>Sequencing of effects\<close>

text \<open>Statement after statement: a raise or a block ends the sequence where it happens.\<close>

definition and_then ::
  "(state \<Rightarrow> 'a outcome \<times> state) \<Rightarrow> ('a \<Rightarrow> state \<Rightarrow> 'b outcome \<times> state) \<Rightarrow> state \<Rightarrow> 'b outcome \<times> state" where
  "and_then m f s =
     (case m s of
        (Returns x, s') \<Rightarrow> f x s'
      | (Raises e, s') \<Rightarrow> (Raises e, s')
      | (Blocks, s') \<Rightarrow> (Blocks, s'))"

definition lift :: "exn + 'a \<Rightarrow> state \<Rightarrow> 'a outcome \<times> state" where
  "lift r s = (case r of Inl e \<Rightarrow> (Raises e, s) | Inr x \<Rightarrow> (Returns x, s))"

text \<open>\<^verbatim>\<open>data[k] = v\<close> on the object a reference points to.\<close>

definition setitem_ref :: "docref \<Rightarrow> string \<Rightarrow> json \<Rightarrow> state \<Rightarrow> docref outcome \<times> state" where
  "setitem_ref data k v s =
     (case py_setitem (deref s data) k v of
        Inl e \<Rightarrow> (Raises e, s)
      | Inr d' \<Rightarrow> (case assign data d' s of (r, s') \<Rightarrow> (Returns r, s')))"

section \<open>Configuration, authorization and the outside world\<close>

text \<open>The two module constants read from the environment when the module is loaded.\<close>

record config =
  ADMIN_TOKEN :: string
  USE_CLOUDINARY :: bool

definition verify_token :: "config \<Rightarrow> string \<Rightarrow> exn + unit" where
  "verify_token cfg authorization =
     (let expected = ''Bearer '' @ ADMIN_TOKEN cfg
      in if authorization \<noteq> expected then Inl (HTTPException 401 ''Unauthorized'') else Inr ())"

text \<open>
  \<^verbatim>\<open>token: str = Depends(verify_token)\<close> with \<^verbatim>\<open>authorization: str = Header(...)\<close>: the
  header is declared required, so for a request without it the framework answers with
  its own validation error (status 422) and calls neither \<^verbatim>\<open>verify_token\<close> nor the
  handler. The dependency is resolved before the handler's body runs.
\<close>

definition depends_verify_token :: "config \<Rightarrow> string option \<Rightarrow> exn + unit" where
  "depends_verify_token cfg header =
     (case header of None \<Rightarrow> Inl RequestValidationError
                   | Some authorization \<Rightarrow> verify_token cfg authorization)"

text \<open>An uploaded file: its name and its bytes.\<close>

record UploadFile =
  filename :: string
  file_bytes :: "nat list"

text \<open>
  \<^verbatim>\<open>not file\<close>: \<^verbatim>\<open>UploadFile\<close> defines neither \<^verbatim>\<open>__bool__\<close> nor \<^verbatim>\<open>__len__\<close>, so every
  instance is truthy, whatever its size; the parameter is declared \<^verbatim>\<open>File(...)\<close>, so the
  handler is never called without one.
\<close>

definition not_file :: "UploadFile \<Rightarrow> bool" where
  "not_file file = False"

text \<open>What \<^verbatim>\<open>cloudinary.uploader.upload\<close> does: it raises, or returns a dict.\<close>

datatype cloudinary_reply = UploadFails string | UploadResult "(string \<times> json) list"

text \<open>
  What one request gets from outside the program: the reply of the hosted service,
  the two random identifiers, and whether removing media fails.
\<close>

record world =
  upload_reply :: cloudinary_reply
  uuid_hex :: string
  uuid_str :: string
  destroy_raises :: bool
  unlink_raises :: bool

text \<open>
  The block every upload handler repeats (lines 150 to 169, 191 to 209, 241 to 259),
  which differs only in the folder and the resource type. Writing under
  \<^verbatim>\<open>UPLOADS_DIR\<close> is taken to succeed.
\<close>

definition store ::
  "config \<Rightarrow> world \<Rightarrow> string \<Rightarrow> string \<Rightarrow> UploadFile \<Rightarrow> state \<Rightarrow> (json \<times> json) outcome \<times> state" where
  "store cfg w folder resource_type file s =
     (if USE_CLOUDINARY cfg then
        (let s1 = s\<lparr>calls := calls s @ [CloudinaryUpload folder resource_type]\<rparr>
         in (case upload_reply w of
               UploadFails msg \<Rightarrow> (Raises (HTTPException 500 (''Cloudinary error: '' @ msg)), s1)
             | UploadResult result \<Rightarrow>
                 (case map_of result ''secure_url'' of
                    None \<Rightarrow> (Raises (KeyError ''secure_url''), s1)
                  | Some url \<Rightarrow>
                      (Returns (url, (case map_of result ''public_id'' of
                                        None \<Rightarrow> JNull | Some p \<Rightarrow> p)), s1))))
      else
        (let contents = file_bytes file;
             fname = uuid_hex w @ ''_'' @ filename file
         in (Returns (JStr (''/uploads/'' @ fname), JStr fname),
             s\<lparr>uploads := dict_set fname contents (uploads s),
               calls := calls s @ [LocalWrite fname contents]\<rparr>)))"

section \<open>The handlers\<close>

definition VALID_SLOTS :: "string set" where
  "VALID_SLOTS =
     (case py_getitem DEFAULT_CONTENT ''slots'' of
        Inr (JObj sl) \<Rightarrow> set (map fst sl)
      | _ \<Rightarrow> {})"

definition CATEGORIES :: "string list" where
  "CATEGORIES = [''damas'', ''caballeros'', ''ninos'', ''manicura'', ''pedicura'']"

text \<open>
  The texts with accented letters, as the bytes of their UTF-8 encoding:
  \<^verbatim>\<open>slot_key inv\<close>a\<^verbatim>\<open>lido\<close>, \<^verbatim>\<open>Categor\<close>i\<^verbatim>\<open>a inv\<close>a\<^verbatim>\<open>lida\<close>,
  \<^verbatim>\<open>Imagen de secci\<close>o\<^verbatim>\<open>n actualizada\<close>, \<^verbatim>\<open>Imagen a\<close>n\<^verbatim>\<open>adida a galer\<close>i\<^verbatim>\<open>a\<close>.
\<close>

definition slot_key_invalido :: string where
  "slot_key_invalido = ''slot_key inv'' @ [CHR 0xC3, CHR 0xA1] @ ''lido''"

definition categoria_invalida :: string where
  "categoria_invalida =
     ''Categor'' @ [CHR 0xC3, CHR 0xAD] @ ''a inv'' @ [CHR 0xC3, CHR 0xA1] @ ''lida''"

definition seccion_actualizada :: string where
  "seccion_actualizada = ''Imagen de secci'' @ [CHR 0xC3, CHR 0xB3] @ ''n actualizada''"

definition anadida_a_galeria :: string where
  "anadida_a_galeria =
     ''Imagen a'' @ [CHR 0xC3, CHR 0xB1] @ ''adida a galer'' @ [CHR 0xC3, CHR 0xAD] @ ''a''"

definition upload_hero_video ::
  "config \<Rightarrow> world \<Rightarrow> string option \<Rightarrow> UploadFile \<Rightarrow> state \<Rightarrow> json outcome \<times> state" where
  "upload_hero_video cfg w authorization file =
     and_then (lift (depends_verify_token cfg authorization)) (\<lambda>token.
       if not_file file then lift (Inl (HTTPException 400 ''No file uploaded''))
       else
         and_then (store cfg w ''thesecretspot/hero/api'' ''video'' file) (\<lambda>(url, public_id).
         and_then load_content (\<lambda>data.
         and_then (setitem_ref data ''heroVideo'' url) (\<lambda>data.
         and_then (\<lambda>s. save_content (deref s data) s) (\<lambda>_.
           lift (Inr (JObj [(''url'', url), (''public_id'', public_id),
                            (''message'', JStr ''Hero video actualizado'')])))))))"

text \<open>
  \<^verbatim>\<open>data["slots"][slot_key] = url\<close>: the dict inside \<open>data\<close> is mutated, which the model
  writes back into \<open>data\<close>.
\<close>

definition upload_slot_image ::
  "config \<Rightarrow> world \<Rightarrow> string option \<Rightarrow> string \<Rightarrow> UploadFile \<Rightarrow> state \<Rightarrow> json outcome \<times> state" where
  "upload_slot_image cfg w authorization slot_key file =
     and_then (lift (depends_verify_token cfg authorization)) (\<lambda>token.
       if slot_key \<notin> VALID_SLOTS then lift (Inl (HTTPException 400 slot_key_invalido))
       else if not_file file then lift (Inl (HTTPException 400 ''No file uploaded''))
       else
         and_then (store cfg w (''thesecretspot/slots/'' @ slot_key @ ''/api'') ''image'' file)
           (\<lambda>(url, public_id).
         and_then load_content (\<lambda>data.
         and_then (\<lambda>s. lift (py_getitem (deref s data) ''slots'') s) (\<lambda>slots.
         and_then (lift (py_setitem slots slot_key url)) (\<lambda>slots'.
         and_then (setitem_ref data ''slots'' slots') (\<lambda>data.
         and_then (\<lambda>s. save_content (deref s data) s) (\<lambda>_.
           lift (Inr (JObj [(''slot_key'', JStr slot_key), (''url'', url),
                            (''public_id'', public_id),
                            (''message'', JStr seccion_actualizada)])))))))))"

text \<open>\<^verbatim>\<open>xs.append(item)\<close>: a method of lists only.\<close>

fun py_append :: "json \<Rightarrow> json \<Rightarrow> exn + json" where
  "py_append (JArr xs) item = Inr (JArr (xs @ [item]))"
| "py_append _ item = Inl AttributeError"

definition upload_gallery_image ::
  "config \<Rightarrow> world \<Rightarrow> string option \<Rightarrow> string \<Rightarrow> UploadFile \<Rightarrow> state \<Rightarrow> json outcome \<times> state" where
  "upload_gallery_image cfg w authorization category file =
     and_then (lift (depends_verify_token cfg authorization)) (\<lambda>token.
       if not_file file then lift (Inl (HTTPException 400 ''No file uploaded''))
       else if category \<notin> set CATEGORIES then lift (Inl (HTTPException 400 categoria_invalida))
       else
         and_then (store cfg w (''thesecretspot/gallery/'' @ category) ''image'' file)
           (\<lambda>(url, public_id).
         let item = JObj [(''id'', JStr (uuid_str w)), (''url'', url),
                          (''public_id'', public_id), (''category'', JStr category)]
         in
         and_then load_content (\<lambda>data.
         and_then (\<lambda>s. lift (py_getitem (deref s data) ''gallery'') s) (\<lambda>gallery.
         and_then (lift (py_append gallery item)) (\<lambda>gallery'.
         and_then (setitem_ref data ''gallery'' gallery') (\<lambda>data.
         and_then (\<lambda>s. save_content (deref s data) s) (\<lambda>_.
           lift (Inr (JObj [(''item'', item), (''message'', JStr anadida_a_galeria)])))))))))"

text \<open>Iteration: over the elements of a list, the keys of a dict, the characters of a string.\<close>

fun py_iter :: "json \<Rightarrow> exn + json list" where
  "py_iter (JArr xs) = Inr xs"
| "py_iter (JObj kvs) = Inr (map (\<lambda>kv. JStr (fst kv)) kvs)"
| "py_iter (JStr s) = Inr (map (\<lambda>c. JStr [c]) s)"
| "py_iter _ = Inl TypeError"

text \<open>
  \<^verbatim>\<open>next((i for i, it in enumerate(gallery) if it["id"] == item_id), None)\<close>: the
  generator is consumed up to the first match, so only the elements before it and the
  match itself are indexed.
\<close>

fun find_idx :: "string \<Rightarrow> json list \<Rightarrow> nat \<Rightarrow> exn + nat option" where
  "find_idx item_id [] i = Inr None"
| "find_idx item_id (it # rest) i =
     (case py_getitem it ''id'' of
        Inl e \<Rightarrow> Inl e
      | Inr v \<Rightarrow> if v = JStr item_id then Inr (Some i) else find_idx item_id rest (Suc i))"

text \<open>\<^verbatim>\<open>gallery[idx]\<close> and \<^verbatim>\<open>del gallery[idx]\<close>, with \<open>idx\<close> a number that is not negative.\<close>

fun py_index :: "json \<Rightarrow> nat \<Rightarrow> exn + json" where
  "py_index (JArr xs) i = (if i < length xs then Inr (xs ! i) else Inl (KeyError ''index''))"
| "py_index (JStr s) i = (if i < length s then Inr (JStr [s ! i]) else Inl (KeyError ''index''))"
| "py_index (JObj kvs) i = Inl (KeyError ''index'')"
| "py_index _ i = Inl TypeError"

fun py_delitem :: "json \<Rightarrow> nat \<Rightarrow> exn + json" where
  "py_delitem (JArr xs) i =
     (if i < length xs then Inr (JArr (take i xs @ drop (Suc i) xs)) else Inl (KeyError ''index''))"
| "py_delitem (JObj kvs) i = Inl (KeyError ''index'')"
| "py_delitem _ i = Inl TypeError"

text \<open>
  The \<^verbatim>\<open>try\<close> block of \<^verbatim>\<open>delete_gallery_image\<close> (lines 285 to 298): every exception in
  it is swallowed, so it only changes the state. The directory \<^verbatim>\<open>UPLOADS_DIR\<close> itself
  (the empty name) exists and cannot be unlinked; names that leave the directory are
  not modelled.
\<close>

definition delete_media :: "config \<Rightarrow> world \<Rightarrow> json \<Rightarrow> state \<Rightarrow> state" where
  "delete_media cfg w item s =
     (if USE_CLOUDINARY cfg then
        (case py_getitem item ''public_id'' of
           Inl e \<Rightarrow> s
         | Inr p \<Rightarrow> s\<lparr>calls := calls s @ [CloudinaryDestroy p]\<rparr>)
      else
        (case item of
           JObj kvs \<Rightarrow>
             (case (case map_of kvs ''public_id'' of None \<Rightarrow> JStr [] | Some p \<Rightarrow> p) of
                JStr p \<Rightarrow>
                  (if p = [] \<or> p \<in> set (map fst (uploads s)) then
                     (let s1 = s\<lparr>calls := calls s @ [LocalUnlink p]\<rparr>
                      in if p = [] \<or> unlink_raises w then s1
                         else s1\<lparr>uploads := filter (\<lambda>f. fst f \<noteq> p) (uploads s1)\<rparr>)
                   else s)
              | _ \<Rightarrow> s)
         | _ \<Rightarrow> s))"

definition delete_gallery_image ::
  "config \<Rightarrow> world \<Rightarrow> string option \<Rightarrow> string \<Rightarrow> state \<Rightarrow> json outcome \<times> state" where
  "delete_gallery_image cfg w authorization item_id =
     and_then (lift (depends_verify_token cfg authorization)) (\<lambda>token.
     and_then load_content (\<lambda>data.
     and_then (\<lambda>s. lift (py_getitem (deref s data) ''gallery'') s) (\<lambda>gallery.
     and_then (lift (py_iter gallery)) (\<lambda>elems.
     and_then (lift (find_idx item_id elems 0)) (\<lambda>idx.
       (case idx of
          None \<Rightarrow> lift (Inl (HTTPException 404 ''Imagen no encontrada''))
        | Some i \<Rightarrow>
            and_then (lift (py_index gallery i)) (\<lambda>item.
            and_then (\<lambda>s. (Returns (), delete_media cfg w item s)) (\<lambda>_.
            and_then (lift (py_delitem gallery i)) (\<lambda>gallery'.
            and_then (setitem_ref data ''gallery'' gallery') (\<lambda>data.
            and_then (\<lambda>s. save_content (deref s data) s) (\<lambda>_.
              lift (Inr (JObj [(''message'', JStr ''Imagen eliminada''),
                               (''id'', JStr item_id)])))))))))))))"

subsection \<open>The read handlers\<close>

text \<open>
  \<^verbatim>\<open>GalleryItem(**item)\<close>: \<open>item\<close> must be a mapping, and the four fields must be
  there and be strings; other keys are ignored.
\<close>

definition GalleryItem :: "json \<Rightarrow> exn + json" where
  "GalleryItem item =
     (case item of
        JObj kvs \<Rightarrow>
          (case (map_of kvs ''id'', map_of kvs ''url'', map_of kvs ''public_id'',
                 map_of kvs ''category'') of
             (Some (JStr i), Some (JStr u), Some (JStr p), Some (JStr c)) \<Rightarrow>
               Inr (JObj [(''id'', JStr i), (''url'', JStr u), (''public_id'', JStr p),
                          (''category'', JStr c)])
           | _ \<Rightarrow> Inl ValidationError)
      | _ \<Rightarrow> Inl TypeError)"

fun gallery_items :: "json list \<Rightarrow> exn + json list" where
  "gallery_items [] = Inr []"
| "gallery_items (item # rest) =
     (case GalleryItem item of
        Inl e \<Rightarrow> Inl e
      | Inr x \<Rightarrow> (case gallery_items rest of Inl e \<Rightarrow> Inl e | Inr xs \<Rightarrow> Inr (x # xs)))"

definition opt_str :: "json \<Rightarrow> bool" where
  "opt_str v = (case v of JNull \<Rightarrow> True | JStr _ \<Rightarrow> True | _ \<Rightarrow> False)"

text \<open>
  \<^verbatim>\<open>ContentResponse(heroVideo=..., slots=..., gallery=...)\<close>: an optional string, a
  dict of optional strings, the items.
\<close>

definition ContentResponse :: "json \<Rightarrow> json \<Rightarrow> json list \<Rightarrow> exn + json" where
  "ContentResponse heroVideo slots gallery =
     (if opt_str heroVideo \<and> (case slots of JObj sl \<Rightarrow> list_all opt_str (map snd sl) | _ \<Rightarrow> False)
      then Inr (JObj [(''heroVideo'', heroVideo), (''slots'', slots), (''gallery'', JArr gallery)])
      else Inl ValidationError)"

definition get_content :: "state \<Rightarrow> json outcome \<times> state" where
  "get_content =
     and_then load_content (\<lambda>data.
     and_then (\<lambda>s. lift (py_getitem (deref s data) ''gallery'') s) (\<lambda>gallery.
     and_then (lift (py_iter gallery)) (\<lambda>elems.
     and_then (lift (gallery_items elems)) (\<lambda>items.
     and_then (\<lambda>s. lift (py_getitem (deref s data) ''heroVideo'') s) (\<lambda>heroVideo.
     and_then (\<lambda>s. lift (py_getitem (deref s data) ''slots'') s) (\<lambda>slots.
       lift (ContentResponse heroVideo slots items)))))))"

definition get_gallery :: "state \<Rightarrow> json outcome \<times> state" where
  "get_gallery =
     and_then load_content (\<lambda>data.
     and_then (\<lambda>s. lift (py_getitem (deref s data) ''gallery'') s) (\<lambda>gallery.
     and_then (lift (py_iter gallery)) (\<lambda>elems.
     and_then (lift (gallery_items elems)) (\<lambda>items.
       lift (Inr (JArr items))))))"

section \<open>Loading the module\<close>

text \<open>
  A statement at the top level of \<^verbatim>\<open>main.py\<close>: the line it starts at, the names it
  evaluates when it runs (a \<^verbatim>\<open>def\<close> evaluates its decorators, defaults and
  annotations, not its body), and the names it binds.
\<close>

record stmt =
  line :: nat
  reads :: "string list"
  binds :: "string list"

text \<open>Statements run in order; the first name read before it is bound raises.\<close>

fun run_module :: "stmt list \<Rightarrow> string list \<Rightarrow> exn + string list" where
  "run_module [] bound = Inr bound"
| "run_module (st # rest) bound =
     (case filter (\<lambda>n. n \<notin> set bound) (reads st) of
        [] \<Rightarrow> run_module rest (bound @ binds st)
      | n # _ \<Rightarrow> Inl (NameError n))"

definition builtins :: "string list" where
  "builtins = [''bool'', ''str'', ''set'', ''dict'', ''__file__'']"

definition main_py :: "stmt list" where
  "main_py =
    [\<lparr>line = 2, reads = [], binds = [''FastAPI'', ''File'', ''UploadFile'', ''HTTPException'',
                                     ''Depends'', ''Header'', ''Form'']\<rparr>,
     \<lparr>line = 3, reads = [], binds = [''CORSMiddleware'']\<rparr>,
     \<lparr>line = 4, reads = [], binds = [''HTMLResponse'']\<rparr>,
     \<lparr>line = 5, reads = [], binds = [''StaticFiles'']\<rparr>,
     \<lparr>line = 6, reads = [], binds = [''BaseModel'']\<rparr>,
     \<lparr>line = 7, reads = [], binds = [''List'', ''Optional'', ''Dict'']\<rparr>,
     \<lparr>line = 8, reads = [], binds = [''uuid4'']\<rparr>,
     \<lparr>line = 9, reads = [], binds = [''cloudinary'']\<rparr>,
     \<lparr>line = 10, reads = [], binds = [''cloudinary'']\<rparr>,
     \<lparr>line = 11, reads = [], binds = [''os'']\<rparr>,
     \<lparr>line = 12, reads = [], binds = [''json'']\<rparr>,
     \<lparr>line = 13, reads = [], binds = [''threading'']\<rparr>,
     \<lparr>line = 14, reads = [], binds = [''Path'']\<rparr>,
     \<lparr>line = 17, reads = [''cloudinary'', ''os''], binds = []\<rparr>,
     \<lparr>line = 25, reads = [''bool'', ''os''], binds = [''USE_CLOUDINARY'']\<rparr>,
     \<lparr>line = 31, reads = [''BASE_DIR''], binds = [''UPLOADS_DIR'']\<rparr>,
     \<lparr>line = 32, reads = [''UPLOADS_DIR''], binds = []\<rparr>,
     \<lparr>line = 36, reads = [''os''], binds = [''ADMIN_TOKEN'']\<rparr>,
     \<lparr>line = 38, reads = [''str'', ''Header''], binds = [''verify_token'']\<rparr>,
     \<lparr>line = 44, reads = [''Path'', ''__file__''], binds = [''BASE_DIR'']\<rparr>,
     \<lparr>line = 45, reads = [''BASE_DIR''], binds = [''CONTENT_PATH'']\<rparr>,
     \<lparr>line = 46, reads = [''threading''], binds = [''LOCK'']\<rparr>,
     \<lparr>line = 48, reads = [], binds = [''DEFAULT_CONTENT'']\<rparr>,
     \<lparr>line = 67, reads = [], binds = [''load_content'']\<rparr>,
     \<lparr>line = 88, reads = [''dict''], binds = [''save_content'']\<rparr>,
     \<lparr>line = 94, reads = [''BaseModel'', ''str''], binds = [''GalleryItem'']\<rparr>,
     \<lparr>line = 100, reads = [''BaseModel'', ''Optional'', ''str'', ''Dict'', ''List'',
                               ''GalleryItem''], binds = [''ContentResponse'']\<rparr>,
     \<lparr>line = 106, reads = [''FastAPI''], binds = [''app'']\<rparr>,
     \<lparr>line = 108, reads = [''app'', ''CORSMiddleware''], binds = []\<rparr>,
     \<lparr>line = 117, reads = [''app'', ''StaticFiles'', ''str'', ''UPLOADS_DIR''], binds = []\<rparr>,
     \<lparr>line = 120, reads = [''app'', ''HTMLResponse''], binds = [''serve_panel'']\<rparr>,
     \<lparr>line = 129, reads = [''app'', ''ContentResponse''], binds = [''get_content'']\<rparr>,
     \<lparr>line = 142, reads = [''app'', ''UploadFile'', ''File'', ''str'', ''Depends'',
                               ''verify_token''], binds = [''upload_hero_video'']\<rparr>,
     \<lparr>line = 177, reads = [''set'', ''DEFAULT_CONTENT''], binds = [''VALID_SLOTS'']\<rparr>,
     \<lparr>line = 178, reads = [''app'', ''str'', ''Form'', ''UploadFile'', ''File'', ''Depends'',
                               ''verify_token''], binds = [''upload_slot_image'']\<rparr>,
     \<lparr>line = 224, reads = [''app'', ''List'', ''GalleryItem''], binds = [''get_gallery'']\<rparr>,
     \<lparr>line = 229, reads = [''app'', ''str'', ''Form'', ''UploadFile'', ''File'', ''Depends'',
                               ''verify_token''], binds = [''upload_gallery_image'']\<rparr>,
     \<lparr>line = 274, reads = [''app'', ''str'', ''Depends'', ''verify_token''],
      binds = [''delete_gallery_image'']\<rparr>]"

definition import_main :: "exn + string list" where
  "import_main = run_module main_py builtins"

section \<open>Predicates on documents\<close>

text \<open>The keys of \<^verbatim>\<open>d["slots"]\<close>, when \<open>d\<close> is a dict that holds a dict there.\<close>

definition slot_keys :: "json \<Rightarrow> string list option" where
  "slot_keys d =
     (case py_getitem d ''slots'' of Inr (JObj sl) \<Rightarrow> Some (map fst sl) | _ \<Rightarrow> None)"

text \<open>
  What every handler leaves true of the object bound to \<^verbatim>\<open>DEFAULT_CONTENT\<close>: it is a
  dict with the three fields, and its slots are the twelve keys in their order.
\<close>

definition default_ok :: "json \<Rightarrow> bool" where
  "default_ok dflt =
     (slot_keys dflt = Some FIXED_SLOT_KEYS
      \<and> py_contains dflt ''gallery'' = Inr True
      \<and> py_contains dflt ''heroVideo'' = Inr True)"

text \<open>A gallery item as the data model has it: four strings, the category a known one.\<close>

definition gallery_item_ok :: "json \<Rightarrow> bool" where
  "gallery_item_ok item =
     (case item of
        JObj kvs \<Rightarrow>
          (case (map_of kvs ''id'', map_of kvs ''url'', map_of kvs ''public_id'',
                 map_of kvs ''category'') of
             (Some (JStr i), Some (JStr u), Some (JStr p), Some (JStr c)) \<Rightarrow> c \<in> set CATEGORIES
           | _ \<Rightarrow> False)
      | _ \<Rightarrow> False)"

definition item_id_of :: "json \<Rightarrow> json" where
  "item_id_of item = (case py_getitem item ''id'' of Inr v \<Rightarrow> v | Inl e \<Rightarrow> JNull)"

text \<open>
  A well-formed content document: an optional string as hero video, slots with exactly
  the fixed keys and optional strings as values, a gallery of items with distinct ids.
\<close>

definition wellformed :: "json \<Rightarrow> bool" where
  "wellformed d =
     ((case py_getitem d ''heroVideo'' of Inr v \<Rightarrow> opt_str v | _ \<Rightarrow> False)
      \<and> (case py_getitem d ''slots'' of
            Inr (JObj sl) \<Rightarrow> set (map fst sl) = set FIXED_SLOT_KEYS \<and> list_all opt_str (map snd sl)
          | _ \<Rightarrow> False)
      \<and> (case py_getitem d ''gallery'' of
            Inr (JArr g) \<Rightarrow> list_all gallery_item_ok g \<and> distinct (map item_id_of g)
          | _ \<Rightarrow> False))"

text \<open>All the \<^verbatim>\<open>setdefault\<close> calls of the merge loop on one dict of slots.\<close>

fun setdefault_all :: "(string \<times> json) list \<Rightarrow> (string \<times> json) list \<Rightarrow> (string \<times> json) list" where
  "setdefault_all [] sl = sl"
| "setdefault_all ((k, v) # rest) sl =
     setdefault_all rest (if k \<in> set (map fst sl) then sl else sl @ [(k, v)])"

text \<open>The slot keys of the persisted document, when it has any.\<close>

definition file_slot_keys :: "state \<Rightarrow> string set" where
  "file_slot_keys s =
     (case content_file s of
        Parses d \<Rightarrow> (case slot_keys d of Some ks \<Rightarrow> set ks | None \<Rightarrow> {})
      | _ \<Rightarrow> {})"

text \<open>The slot keys of the document a load returns, when it returns one.\<close>

definition loaded_slot_keys :: "state \<Rightarrow> string list option" where
  "loaded_slot_keys s =
     (case load_content s of (Returns r, s') \<Rightarrow> slot_keys (deref s' r) | _ \<Rightarrow> None)"

text \<open>A persisted document whose slots hold one key that is not a fixed one.\<close>

definition extra_key_state :: state where
  "extra_key_state =
     init_state\<lparr>content_file := Parses (JObj [(''slots'', JObj [(''extra'', JNull)])])\<rparr>"





subsection \<open>Concrete requests and states\<close>

text \<open>
  Local storage with the default token; one reply of the outside world; a file of zero
  bytes and a small video; a state whose file holds the default document, and one whose
  file does not parse.
\<close>

definition local_cfg :: config where
  "local_cfg = \<lparr>ADMIN_TOKEN = ''123456'', USE_CLOUDINARY = False\<rparr>"

definition world0 :: world where
  "world0 = \<lparr>upload_reply = UploadFails [], uuid_hex = ''0f'', uuid_str = ''id1'',
              destroy_raises = False, unlink_raises = False\<rparr>"

definition empty_file :: UploadFile where
  "empty_file = \<lparr>filename = ''a.mp4'', file_bytes = []\<rparr>"

definition video_file :: UploadFile where
  "video_file = \<lparr>filename = ''v.mp4'', file_bytes = [86, 73, 68, 69, 79]\<rparr>"

definition bootstrapped_state :: state where
  "bootstrapped_state = init_state\<lparr>content_file := Parses DEFAULT_CONTENT\<rparr>"

definition corrupt_state :: state where
  "corrupt_state = init_state\<lparr>content_file := Unparseable ''{''\<rparr>"

text \<open>
  The state after an authorized upload of a hero video on the state whose file does not
  parse, and that state once the file fails to parse again.
\<close>

definition after_upload_state :: state where
  "after_upload_state =
     snd (upload_hero_video local_cfg world0 (Some ''Bearer 123456'') video_file corrupt_state)"

definition corrupt_again_state :: state where
  "corrupt_again_state = after_upload_state\<lparr>content_file := Unparseable ''{''\<rparr>"








section \<open>Loading the module: the order of the top-level bindings\<close>

text \<open>
  C10. The claim is that every top-level name is bound before it is used, so that the
  module loads. The statement at line 31 reads \<^verbatim>\<open>BASE_DIR\<close>, which is bound at line 44
  only: loading the module raises \<^verbatim>\<open>NameError\<close> there.
\<close>

theorem import_main_raises: "import_main = Inl (NameError ''BASE_DIR'')"
  by (simp add: import_main_def main_py_def builtins_def)

section \<open>Loading when there is no file\<close>

lemma save_content_held: "lock_held s \<Longrightarrow> save_content d s = (Blocks, s)"
  by (simp add: save_content_def with_LOCK_def)

lemma load_content_absent:
  "content_file s = Absent \<Longrightarrow> \<not> lock_held s \<Longrightarrow>
   load_content s = (Blocks, s\<lparr>lock_held := True\<rparr>)"
  by (simp add: load_content_def with_LOCK_def save_content_held)

text \<open>
  C2. The claim is that a load with no persisted document writes the default document
  and returns it, so that the content can be read on a fresh environment. In the code
  \<^verbatim>\<open>load_content\<close> holds the lock when it calls \<^verbatim>\<open>save_content\<close>, which waits for the
  same lock: on the initial state neither \<^verbatim>\<open>load_content\<close> nor \<^verbatim>\<open>get_content\<close> returns,
  nothing is written, and the lock stays held.
\<close>

theorem load_content_fresh_blocks:
  "load_content init_state = (Blocks, init_state\<lparr>lock_held := True\<rparr>)
   \<and> get_content init_state = (Blocks, init_state\<lparr>lock_held := True\<rparr>)
   \<and> content_file (snd (load_content init_state)) = Absent
   \<and> calls (snd (load_content init_state)) = []"
proof -
  have l: "load_content init_state = (Blocks, init_state\<lparr>lock_held := True\<rparr>)"
    by (rule load_content_absent) (simp_all add: init_state_def)
  show ?thesis
    unfolding get_content_def and_then_def l by (simp add: init_state_def)
qed

section \<open>Dictionaries and the merge of the defaults\<close>

lemma dict_set_keys:
  "map fst (dict_set k v kvs) = (if k \<in> set (map fst kvs) then map fst kvs else map fst kvs @ [k])"
  by (induction kvs) force+

lemma map_of_dict_set:
  "map_of (dict_set k v kvs) k' = (if k' = k then Some v else map_of kvs k')"
  by (induction kvs) auto

lemma dict_set_same: "map_of kvs k = Some v \<Longrightarrow> dict_set k v kvs = kvs"
  by (induction kvs) (auto split: if_splits)

lemma dict_set_twice: "dict_set k v (dict_set k v' kvs) = dict_set k v kvs"
  by (induction kvs) auto

lemma map_of_Some_key: "map_of kvs k = Some v \<Longrightarrow> k \<in> set (map fst kvs)"
  by (metis map_of_eq_None_iff option.distinct(1) set_map)

lemma key_map_of: "k \<in> set (map fst kvs) \<Longrightarrow> \<exists>v. map_of kvs k = Some v"
  by (metis map_of_eq_None_iff not_None_eq set_map)

lemma dict_set_key_set: "fst ` set (dict_set k v kvs) = insert k (fst ` set kvs)"
proof -
  have "set (map fst (dict_set k v kvs)) = insert k (set (map fst kvs))"
    unfolding dict_set_keys by auto
  then show ?thesis by simp
qed

lemma keys_setdefault_all:
  "fst ` set (setdefault_all its sl) = fst ` set sl \<union> fst ` set its"
  by (induction its sl rule: setdefault_all.induct) auto

lemma setdefault_all_id:
  "set (map fst its) \<subseteq> set (map fst sl) \<Longrightarrow> setdefault_all its sl = sl"
  by (induction its sl rule: setdefault_all.induct) auto

lemma merge_slots_present:
  "map_of d ''slots'' = Some (JObj sl) \<Longrightarrow>
   merge_slots its (JObj d) = Inr (JObj (dict_set ''slots'' (JObj (setdefault_all its sl)) d))"
proof (induction its arbitrary: d sl)
  case Nil
  then show ?case by (simp add: dict_set_same)
next
  case (Cons kv rest)
  obtain k v where kv: "kv = (k, v)" by (cases kv)
  let ?sl1 = "if k \<in> set (map fst sl) then sl else sl @ [(k, v)]"
  let ?d1 = "dict_set ''slots'' (JObj ?sl1) d"
  have key: "''slots'' \<in> set (map fst d)"
    using Cons.prems by (rule map_of_Some_key)
  have look: "map_of ?d1 ''slots'' = Some (JObj ?sl1)"
    by (simp add: map_of_dict_set)
  have step: "merge_slots ((k, v) # rest) (JObj d) = merge_slots rest (JObj ?d1)"
    using key Cons.prems by simp
  show ?case
    unfolding kv step Cons.IH [OF look] by (simp add: dict_set_twice)
qed

lemma merge_slots_absent:
  assumes "''slots'' \<notin> set (map fst d)" and "its \<noteq> []"
  shows "merge_slots its (JObj d) = Inr (JObj (dict_set ''slots'' (JObj (setdefault_all its [])) d))"
proof -
  obtain k v rest where its: "its = (k, v) # rest"
    using assms(2) by (cases its) auto
  let ?d1 = "dict_set ''slots'' (JObj [(k, v)]) d"
  have look: "map_of ?d1 ''slots'' = Some (JObj [(k, v)])"
    by (simp add: map_of_dict_set)
  have step: "merge_slots ((k, v) # rest) (JObj d) = merge_slots rest (JObj ?d1)"
    using assms(1) by (simp add: map_of_dict_set dict_set_twice)
  show ?thesis
    unfolding its step merge_slots_present [OF look] by (simp add: dict_set_twice)
qed

lemma merge_slots_bad:
  assumes "map_of d ''slots'' = Some v" and "\<And>sl. v \<noteq> JObj sl" and "its \<noteq> []"
  shows "merge_slots its (JObj d) = Inl AttributeError"
proof -
  obtain k w rest where its: "its = (k, w) # rest"
    using assms(3) by (cases its) auto
  have key: "''slots'' \<in> set (map fst d)"
    using assms(1) by (rule map_of_Some_key)
  have sd: "py_setdefault v k w = Inl AttributeError"
    using assms(2) by (cases v) auto
  show ?thesis
    unfolding its using key assms(1) sd by simp
qed

lemma merge_slots_nondict:
  assumes "\<And>d. data \<noteq> JObj d" and "its \<noteq> []"
  shows "merge_slots its data = Inl TypeError"
proof -
  obtain k w rest where its: "its = (k, w) # rest"
    using assms(2) by (cases its) auto
  show ?thesis
    unfolding its using assms(1) by (cases data) auto
qed

text \<open>The two last steps of the merge, on a dict.\<close>

lemma merge_defaults_fill:
  assumes "py_getitem dflt ''slots'' = Inr (JObj ds)"
    and "merge_slots ds data = Inr (JObj d1)"
    and "merge_defaults dflt data = Inr r"
  shows "\<exists>d'. r = JObj d' \<and> map_of d' ''slots'' = map_of d1 ''slots''
              \<and> ''gallery'' \<in> set (map fst d') \<and> ''heroVideo'' \<in> set (map fst d')"
proof -
  let ?d2 = "if ''gallery'' \<in> set (map fst d1) then d1 else dict_set ''gallery'' (JArr []) d1"
  let ?d3 = "if ''heroVideo'' \<in> set (map fst ?d2) then ?d2 else dict_set ''heroVideo'' JNull ?d2"
  have "merge_defaults dflt data = Inr (JObj ?d3)"
    by (simp add: merge_defaults_def assms(1,2))
  with assms(3) have r: "r = JObj ?d3"
    by simp
  have g2: "''gallery'' \<in> set (map fst ?d2)"
    by (simp add: dict_set_key_set)
  have g3: "''gallery'' \<in> set (map fst ?d3)"
    using g2 by (simp add: dict_set_key_set)
  have h3: "''heroVideo'' \<in> set (map fst ?d3)"
    by (simp add: dict_set_key_set)
  have s3: "map_of ?d3 ''slots'' = map_of d1 ''slots''"
    by (simp add: map_of_dict_set)
  show ?thesis using r g3 h3 s3 by blast
qed

lemma merge_defaults_complete:
  assumes "py_getitem dflt ''slots'' = Inr (JObj ds)"
    and "map_of d ''slots'' = Some (JObj sl)"
    and "set (map fst ds) \<subseteq> set (map fst sl)"
    and "''gallery'' \<in> set (map fst d)" and "''heroVideo'' \<in> set (map fst d)"
  shows "merge_defaults dflt (JObj d) = Inr (JObj d)"
proof -
  have "merge_slots ds (JObj d) = Inr (JObj d)"
    unfolding merge_slots_present [OF assms(2)]
    by (simp add: setdefault_all_id [OF assms(3)] dict_set_same [OF assms(2)])
  then show ?thesis
    unfolding merge_defaults_def using assms(1,4,5) by simp
qed

lemma merge_defaults_result:
  assumes dflt: "py_getitem dflt ''slots'' = Inr (JObj ds)" and ne: "ds \<noteq> []"
    and res: "merge_defaults dflt data = Inr r"
  shows "\<exists>d' sl'. r = JObj d' \<and> map_of d' ''slots'' = Some (JObj sl')
           \<and> set (map fst sl') =
               set (map fst ds) \<union> (case slot_keys data of Some ks \<Rightarrow> set ks | None \<Rightarrow> {})
           \<and> ''gallery'' \<in> set (map fst d') \<and> ''heroVideo'' \<in> set (map fst d')"
proof -
  have ms: "merge_slots ds data \<noteq> Inl TypeError \<and> merge_slots ds data \<noteq> Inl AttributeError"
    using res dflt unfolding merge_defaults_def by (auto split: sum.splits)
  obtain d where data: "data = JObj d"
    using merge_slots_nondict [OF _ ne, of data] ms by blast
  have "\<exists>sl1. merge_slots ds data = Inr (JObj (dict_set ''slots'' (JObj sl1) d))
          \<and> set (map fst sl1) =
               set (map fst ds) \<union> (case slot_keys data of Some ks \<Rightarrow> set ks | None \<Rightarrow> {})"
  proof (cases "map_of d ''slots''")
    case None
    then have "''slots'' \<notin> set (map fst d)"
      by (simp add: map_of_eq_None_iff)
    from merge_slots_absent [OF this ne] None show ?thesis
      unfolding data
      by (intro exI [of _ "setdefault_all ds []"]) (simp add: slot_keys_def keys_setdefault_all)
  next
    case (Some v)
    show ?thesis
    proof (cases "\<exists>sl. v = JObj sl")
      case True
      then obtain sl where v: "v = JObj sl" by blast
      from merge_slots_present [of d sl ds] Some show ?thesis
        unfolding data v
        by (intro exI [of _ "setdefault_all ds sl"])
           (auto simp: slot_keys_def keys_setdefault_all)
    next
      case False
      then have "merge_slots ds (JObj d) = Inl AttributeError"
        using merge_slots_bad [OF Some _ ne] by blast
      then show ?thesis using ms data by simp
    qed
  qed
  then obtain sl1 where m: "merge_slots ds data = Inr (JObj (dict_set ''slots'' (JObj sl1) d))"
    and k: "set (map fst sl1) =
               set (map fst ds) \<union> (case slot_keys data of Some ks \<Rightarrow> set ks | None \<Rightarrow> {})"
    by blast
  from merge_defaults_fill [OF dflt m res] obtain d' where "r = JObj d'"
      and "map_of d' ''slots'' = map_of (dict_set ''slots'' (JObj sl1) d) ''slots''"
      and "''gallery'' \<in> set (map fst d')" and "''heroVideo'' \<in> set (map fst d')"
    by blast
  then show ?thesis using k by (auto simp: map_of_dict_set)
qed

lemma default_ok_D:
  assumes "default_ok dflt"
  shows "\<exists>kvs ds. dflt = JObj kvs \<and> map_of kvs ''slots'' = Some (JObj ds)
           \<and> map fst ds = FIXED_SLOT_KEYS
           \<and> ''gallery'' \<in> set (map fst kvs) \<and> ''heroVideo'' \<in> set (map fst kvs)"
  using assms
  by (cases dflt) (auto simp: default_ok_def slot_keys_def split: option.splits json.splits)

lemma FIXED_nonempty: "FIXED_SLOT_KEYS \<noteq> []"
  by (simp add: FIXED_SLOT_KEYS_def)

lemma wellformed_D:
  assumes "wellformed d"
  shows "\<exists>kvs sl. d = JObj kvs \<and> map_of kvs ''slots'' = Some (JObj sl)
           \<and> set (map fst sl) = set FIXED_SLOT_KEYS
           \<and> ''gallery'' \<in> set (map fst kvs) \<and> ''heroVideo'' \<in> set (map fst kvs)"
proof -
  from assms obtain kvs where d: "d = JObj kvs"
    by (cases d) (auto simp: wellformed_def)
  from assms d obtain sl where sl: "map_of kvs ''slots'' = Some (JObj sl)"
      and keys: "set (map fst sl) = set FIXED_SLOT_KEYS"
    by (auto simp: wellformed_def split: option.splits json.splits)
  from assms d obtain g h where "map_of kvs ''gallery'' = Some g" "map_of kvs ''heroVideo'' = Some h"
    by (auto simp: wellformed_def split: option.splits json.splits)
  then have "''gallery'' \<in> set (map fst kvs)" "''heroVideo'' \<in> set (map fst kvs)"
    by (auto dest: map_of_Some_key)
  with d sl keys show ?thesis by blast
qed

lemma merge_defaults_wellformed:
  assumes "default_ok dflt" and "wellformed d"
  shows "merge_defaults dflt d = Inr d"
proof -
  from default_ok_D [OF assms(1)] obtain kvs0 ds where
    "py_getitem dflt ''slots'' = Inr (JObj ds)" and ds: "map fst ds = FIXED_SLOT_KEYS"
    by auto
  moreover from wellformed_D [OF assms(2)] obtain kvs sl where
    "d = JObj kvs" "map_of kvs ''slots'' = Some (JObj sl)" "set (map fst sl) = set FIXED_SLOT_KEYS"
    "''gallery'' \<in> set (map fst kvs)" "''heroVideo'' \<in> set (map fst kvs)"
    by blast
  ultimately show ?thesis
    using merge_defaults_complete [of dflt ds kvs sl] by auto
qed

lemma merge_defaults_again:
  assumes "default_ok dflt" and "merge_defaults dflt d = Inr r"
  shows "merge_defaults dflt r = Inr r"
proof -
  from default_ok_D [OF assms(1)] obtain kvs0 ds where
    g: "py_getitem dflt ''slots'' = Inr (JObj ds)" and ds: "map fst ds = FIXED_SLOT_KEYS"
    by auto
  have ne: "ds \<noteq> []" using ds FIXED_nonempty by auto
  from merge_defaults_result [OF g ne assms(2)] obtain d' sl' where
    r: "r = JObj d'" and sl: "map_of d' ''slots'' = Some (JObj sl')"
    and keys: "set (map fst sl') =
                 set (map fst ds) \<union> (case slot_keys d of Some ks \<Rightarrow> set ks | None \<Rightarrow> {})"
    and gh: "''gallery'' \<in> set (map fst d')" "''heroVideo'' \<in> set (map fst d')"
    by blast
  have sub: "set (map fst ds) \<subseteq> set (map fst sl')"
    unfolding keys by (rule Un_upper1)
  show ?thesis
    unfolding r by (rule merge_defaults_complete [OF g sl sub gh])
qed

lemma default_ok_DEFAULT: "default_ok DEFAULT_CONTENT"
  by (simp add: default_ok_def slot_keys_def DEFAULT_CONTENT_def FIXED_SLOT_KEYS_def)

lemma merge_empty:
  "merge_defaults DEFAULT_CONTENT (JObj []) =
     Inr (JObj [(''slots'', JObj (map (\<lambda>k. (k, JNull)) FIXED_SLOT_KEYS)),
                (''gallery'', JArr []), (''heroVideo'', JNull)])"
  by (simp add: merge_defaults_def DEFAULT_CONTENT_def FIXED_SLOT_KEYS_def)

lemma wellformed_DEFAULT: "wellformed DEFAULT_CONTENT"
  by (simp add: wellformed_def DEFAULT_CONTENT_def FIXED_SLOT_KEYS_def opt_str_def)

text \<open>
  C5. The merge of the defaults is idempotent: on a well-formed document it changes
  nothing, and on any value on which it succeeds, a second run returns what the first
  returned. The default object is any one with the twelve slot keys, as the handlers
  keep it.
\<close>

theorem merge_defaults_idempotent:
  assumes "default_ok dflt"
  shows "(wellformed d \<longrightarrow> merge_defaults dflt d = Inr d)
       \<and> (\<forall>r. merge_defaults dflt d = Inr r \<longrightarrow> merge_defaults dflt r = Inr r)"
  using merge_defaults_wellformed [OF assms] merge_defaults_again [OF assms] by blast


theorem merge_defaults_idempotent_witness:
  "default_ok DEFAULT_CONTENT \<and> wellformed DEFAULT_CONTENT
   \<and> merge_defaults DEFAULT_CONTENT DEFAULT_CONTENT = Inr DEFAULT_CONTENT
   \<and> merge_defaults DEFAULT_CONTENT
        (JObj [(''slots'', JObj (map (\<lambda>k. (k, JNull)) FIXED_SLOT_KEYS)),
               (''gallery'', JArr []), (''heroVideo'', JNull)]) =
      Inr (JObj [(''slots'', JObj (map (\<lambda>k. (k, JNull)) FIXED_SLOT_KEYS)),
                 (''gallery'', JArr []), (''heroVideo'', JNull)])"
proof -
  note th = merge_defaults_idempotent [OF default_ok_DEFAULT]
  have a: "merge_defaults DEFAULT_CONTENT DEFAULT_CONTENT = Inr DEFAULT_CONTENT"
    using th [of DEFAULT_CONTENT] wellformed_DEFAULT by blast
  have b: "merge_defaults DEFAULT_CONTENT
        (JObj [(''slots'', JObj (map (\<lambda>k. (k, JNull)) FIXED_SLOT_KEYS)),
               (''gallery'', JArr []), (''heroVideo'', JNull)]) =
      Inr (JObj [(''slots'', JObj (map (\<lambda>k. (k, JNull)) FIXED_SLOT_KEYS)),
                 (''gallery'', JArr []), (''heroVideo'', JNull)])"
    using th [of "JObj []"] merge_empty by blast
  show ?thesis
    using default_ok_DEFAULT wellformed_DEFAULT a b by blast
qed

section \<open>Loading and saving\<close>

lemma unlock_idle: "\<not> lock_held s \<Longrightarrow> s\<lparr>lock_held := False\<rparr> = s"
  by (cases s) simp

lemma load_content_held: "lock_held s \<Longrightarrow> load_content s = (Blocks, s)"
  by (simp add: load_content_def with_LOCK_def)

lemma load_content_parses:
  assumes "content_file s = Parses d" and "\<not> lock_held s"
  shows "load_content s =
           (case merge_defaults (default_content s) d of
              Inl e \<Rightarrow> (Raises e, s)
            | Inr d' \<Rightarrow> (Returns (Fresh d'), s))"
  using assms
  by (simp add: load_content_def with_LOCK_def deref_def assign_def unlock_idle
           split: sum.splits)

lemma merge_defaults_self:
  assumes "default_ok dflt"
  shows "merge_defaults dflt dflt = Inr dflt"
proof -
  from default_ok_D [OF assms] obtain kvs ds where
    d: "dflt = JObj kvs" and sl: "map_of kvs ''slots'' = Some (JObj ds)"
    and gh: "''gallery'' \<in> set (map fst kvs)" "''heroVideo'' \<in> set (map fst kvs)"
    by blast
  have g: "py_getitem dflt ''slots'' = Inr (JObj ds)"
    using d sl by simp
  show ?thesis
    using merge_defaults_complete [OF g sl subset_refl gh] d by simp
qed

lemma load_content_unparseable:
  assumes "content_file s = Unparseable t" and "\<not> lock_held s"
    and "default_ok (default_content s)"
  shows "load_content s = (Returns SharedDefault, s)"
  using assms
  by (simp add: load_content_def with_LOCK_def deref_def assign_def unlock_idle
        merge_defaults_self)

lemma save_content_idle:
  "\<not> lock_held s \<Longrightarrow>
   save_content d s = (Returns (), s\<lparr>content_file := Parses d, calls := calls s @ [Save d]\<rparr>)"
  by (simp add: save_content_def with_LOCK_def)

text \<open>
  C1, as the code has it. The merge only adds keys: the slots of a document returned by
  a load have the twelve fixed keys and, besides them, every slot key the persisted
  document had. The key set is the fixed one exactly when the file had no other key.
\<close>

theorem load_content_slot_keys:
  assumes "default_ok (default_content s)" and "load_content s = (Returns r, s')"
  shows "map_option set (slot_keys (deref s' r)) = Some (set FIXED_SLOT_KEYS \<union> file_slot_keys s)"
proof -
  have idle: "\<not> lock_held s"
    using assms(2) load_content_held [of s] by auto
  show ?thesis
  proof (cases "content_file s")
    case Absent
    then show ?thesis
      using assms(2) load_content_absent [OF Absent idle] by simp
  next
    case (Unparseable t)
    from load_content_unparseable [OF Unparseable idle assms(1)] assms(2)
    have "r = SharedDefault" "s' = s" by simp_all
    then show ?thesis
      using assms(1) Unparseable
      by (auto simp: deref_def default_ok_def file_slot_keys_def)
  next
    case (Parses d)
    from default_ok_D [OF assms(1)] obtain kvs ds where
      "default_content s = JObj kvs" "map_of kvs ''slots'' = Some (JObj ds)"
      and ds: "map fst ds = FIXED_SLOT_KEYS"
      by blast
    then have g: "py_getitem (default_content s) ''slots'' = Inr (JObj ds)"
      by simp
    have ne: "ds \<noteq> []" using ds FIXED_nonempty by auto
    from load_content_parses [OF Parses idle] assms(2) obtain d' where
      m: "merge_defaults (default_content s) d = Inr d'" and r: "r = Fresh d'"
      by (auto split: sum.splits)
    from merge_defaults_result [OF g ne m] obtain kvs' sl' where
      "d' = JObj kvs'" "map_of kvs' ''slots'' = Some (JObj sl')"
      "set (map fst sl') =
         set (map fst ds) \<union> (case slot_keys d of Some ks \<Rightarrow> set ks | None \<Rightarrow> {})"
      by blast
    then show ?thesis
      using r ds Parses by (simp add: deref_def slot_keys_def file_slot_keys_def)
  qed
qed

lemma load_extra:
  "load_content extra_key_state =
     (Returns (Fresh (JObj [(''slots'', JObj ((''extra'', JNull) # map (\<lambda>k. (k, JNull)) FIXED_SLOT_KEYS)),
                            (''gallery'', JArr []), (''heroVideo'', JNull)])),
      extra_key_state)"
proof -
  have f: "content_file extra_key_state = Parses (JObj [(''slots'', JObj [(''extra'', JNull)])])"
    and i: "\<not> lock_held extra_key_state"
    and d: "default_content extra_key_state = DEFAULT_CONTENT"
    by (simp_all add: extra_key_state_def init_state_def)
  have m: "merge_defaults DEFAULT_CONTENT (JObj [(''slots'', JObj [(''extra'', JNull)])]) =
      Inr (JObj [(''slots'', JObj ((''extra'', JNull) # map (\<lambda>k. (k, JNull)) FIXED_SLOT_KEYS)),
                            (''gallery'', JArr []), (''heroVideo'', JNull)])"
    by (simp add: merge_defaults_def DEFAULT_CONTENT_def FIXED_SLOT_KEYS_def)
  show ?thesis
    unfolding load_content_parses [OF f i] d m by simp
qed

text \<open>
  C1 as stated (the key set of a returned document is exactly the fixed one) fails on
  a persisted document with a foreign slot key: the key is still there after the load.
\<close>

theorem load_content_extra_key:
  "loaded_slot_keys extra_key_state = Some (''extra'' # FIXED_SLOT_KEYS)
   \<and> set (''extra'' # FIXED_SLOT_KEYS) \<noteq> set FIXED_SLOT_KEYS"
proof -
  have "''extra'' \<notin> set FIXED_SLOT_KEYS"
    by (simp add: FIXED_SLOT_KEYS_def)
  then have "set (''extra'' # FIXED_SLOT_KEYS) \<noteq> set FIXED_SLOT_KEYS"
    by auto
  moreover have "loaded_slot_keys extra_key_state = Some (''extra'' # FIXED_SLOT_KEYS)"
    unfolding loaded_slot_keys_def load_extra
    by (simp add: deref_def slot_keys_def comp_def)
  ultimately show ?thesis by blast
qed

theorem load_content_slot_keys_witness:
  "default_ok (default_content extra_key_state)
   \<and> map_option set (loaded_slot_keys extra_key_state)
       = Some (set FIXED_SLOT_KEYS \<union> file_slot_keys extra_key_state)
   \<and> file_slot_keys extra_key_state = {''extra''}"
proof -
  have ok: "default_ok (default_content extra_key_state)"
    by (simp add: extra_key_state_def init_state_def default_ok_DEFAULT)
  have "file_slot_keys extra_key_state = {''extra''}"
    by (simp add: file_slot_keys_def extra_key_state_def init_state_def slot_keys_def)
  then show ?thesis
    using ok load_content_slot_keys [OF ok load_extra]
    by (simp add: loaded_slot_keys_def load_extra)
qed

text \<open>
  C3. Saving a well-formed document and loading it again, with the lock free and no
  other writer in between, returns the document itself, field for field.
\<close>

theorem save_then_load:
  assumes "wellformed d" and "\<not> lock_held s" and "default_ok (default_content s)"
  shows "save_content d s = (Returns (), s\<lparr>content_file := Parses d, calls := calls s @ [Save d]\<rparr>)
       \<and> load_content (snd (save_content d s)) = (Returns (Fresh d), snd (save_content d s))"
proof -
  let ?s1 = "s\<lparr>content_file := Parses d, calls := calls s @ [Save d]\<rparr>"
  have sv: "save_content d s = (Returns (), ?s1)"
    by (rule save_content_idle [OF assms(2)])
  have f: "content_file ?s1 = Parses d" and i: "\<not> lock_held ?s1"
    using assms(2) by simp_all
  have m: "merge_defaults (default_content ?s1) d = Inr d"
    using merge_defaults_wellformed [OF assms(3) assms(1)] by simp
  have "load_content ?s1 = (Returns (Fresh d), ?s1)"
    unfolding load_content_parses [OF f i] m by simp
  with sv show ?thesis by simp
qed

theorem save_then_load_witness:
  "wellformed DEFAULT_CONTENT \<and> \<not> lock_held init_state
   \<and> default_ok (default_content init_state)
   \<and> load_content (snd (save_content DEFAULT_CONTENT init_state))
       = (Returns (Fresh DEFAULT_CONTENT), snd (save_content DEFAULT_CONTENT init_state))
   \<and> content_file (snd (save_content DEFAULT_CONTENT init_state)) = Parses DEFAULT_CONTENT"
proof -
  have i: "\<not> lock_held init_state" and ok: "default_ok (default_content init_state)"
    by (simp_all add: init_state_def default_ok_DEFAULT)
  have a: "load_content (snd (save_content DEFAULT_CONTENT init_state))
       = (Returns (Fresh DEFAULT_CONTENT), snd (save_content DEFAULT_CONTENT init_state))"
    using save_then_load [OF wellformed_DEFAULT i ok] by (rule conjunct2)
  have b: "content_file (snd (save_content DEFAULT_CONTENT init_state)) = Parses DEFAULT_CONTENT"
    by (simp add: save_content_idle [OF i])
  show ?thesis using i ok wellformed_DEFAULT a b by blast
qed

section \<open>Authorization and validation\<close>

lemma VALID_SLOTS_fixed: "VALID_SLOTS = set FIXED_SLOT_KEYS"
  by (simp add: VALID_SLOTS_def DEFAULT_CONTENT_def comp_def)

lemma depends_verify_token_iff:
  "depends_verify_token cfg header = Inr () \<longleftrightarrow> header = Some (''Bearer '' @ ADMIN_TOKEN cfg)"
  by (cases header) (auto simp: depends_verify_token_def verify_token_def)

lemma depends_verify_token_fails:
  "header \<noteq> Some (''Bearer '' @ ADMIN_TOKEN cfg) \<Longrightarrow>
   depends_verify_token cfg header =
     Inl (case header of None \<Rightarrow> RequestValidationError
                       | Some a \<Rightarrow> HTTPException 401 ''Unauthorized'')"
  by (cases header) (auto simp: depends_verify_token_def verify_token_def)

lemma gate_closed:
  assumes "depends_verify_token cfg header = Inl e"
  shows "upload_hero_video cfg w header file s = (Raises e, s)"
    and "upload_slot_image cfg w header slot_key file s = (Raises e, s)"
    and "upload_gallery_image cfg w header category file s = (Raises e, s)"
    and "delete_gallery_image cfg w header item_id s = (Raises e, s)"
  using assms
  by (simp_all add: upload_hero_video_def upload_slot_image_def upload_gallery_image_def
        delete_gallery_image_def and_then_def lift_def)

lemma gate_open:
  assumes "header = Some (''Bearer '' @ ADMIN_TOKEN cfg)"
  shows "upload_hero_video cfg w header file s =
           and_then (store cfg w ''thesecretspot/hero/api'' ''video'' file) (\<lambda>(url, public_id).
           and_then load_content (\<lambda>data.
           and_then (setitem_ref data ''heroVideo'' url) (\<lambda>data.
           and_then (\<lambda>s. save_content (deref s data) s) (\<lambda>_.
             lift (Inr (JObj [(''url'', url), (''public_id'', public_id),
                              (''message'', JStr ''Hero video actualizado'')])))))) s"
  using assms
  by (simp add: upload_hero_video_def and_then_def lift_def depends_verify_token_def
        verify_token_def not_file_def)

lemma load_content_calls: "calls (snd (load_content s)) = calls s"
  by (auto simp: load_content_def with_LOCK_def save_content_def assign_def Let_def
           split: persisted.splits sum.splits prod.splits outcome.splits docref.splits)

lemma save_content_calls: "length (calls s) \<le> length (calls (snd (save_content d s)))"
  by (simp add: save_content_def with_LOCK_def)

lemma setitem_ref_calls: "calls (snd (setitem_ref data k v s)) = calls s"
  by (auto simp: setitem_ref_def assign_def split: sum.splits docref.splits)

lemma lift_calls: "calls (snd (lift r s)) = calls s"
  by (simp add: lift_def split: sum.splits)

lemma store_calls: "length (calls (snd (store cfg w folder rt file s))) = Suc (length (calls s))"
  by (simp add: store_def Let_def split: cloudinary_reply.splits option.splits)

lemma and_then_calls:
  assumes "\<And>s. length (calls s) \<le> length (calls (snd (m s)))"
    and "\<And>x s. length (calls s) \<le> length (calls (snd (f x s)))"
  shows "length (calls s) \<le> length (calls (snd (and_then m f s)))"
proof (cases "m s")
  case (Pair r s1)
  have a: "length (calls s) \<le> length (calls s1)"
    using assms(1) [of s] Pair by simp
  show ?thesis
  proof (cases r)
    case (Returns x)
    have "length (calls s1) \<le> length (calls (snd (f x s1)))" by (rule assms(2))
    with a show ?thesis by (simp add: and_then_def Pair Returns)
  qed (use a in \<open>simp_all add: and_then_def Pair\<close>)
qed

lemma hero_video_stores:
  assumes "header = Some (''Bearer '' @ ADMIN_TOKEN cfg)"
  shows "length (calls s) < length (calls (snd (upload_hero_video cfg w header file s)))"
proof -
  obtain r s1 where st: "store cfg w ''thesecretspot/hero/api'' ''video'' file s = (r, s1)"
    by (cases "store cfg w ''thesecretspot/hero/api'' ''video'' file s")
  have l1: "length (calls s1) = Suc (length (calls s))"
    using store_calls [of cfg w "''thesecretspot/hero/api''" "''video''" "file" s] st by simp
  show ?thesis
  proof (cases r)
    case (Returns up)
    obtain url public_id where up: "up = (url, public_id)" by (cases up)
    have "length (calls s1) \<le> length (calls (snd (
           and_then load_content (\<lambda>data.
           and_then (setitem_ref data ''heroVideo'' url) (\<lambda>data.
           and_then (\<lambda>s. save_content (deref s data) s) (\<lambda>_.
             lift (Inr (JObj [(''url'', url), (''public_id'', public_id),
                              (''message'', JStr ''Hero video actualizado'')]))))) s1)))"
      by (intro and_then_calls)
         (simp_all add: load_content_calls setitem_ref_calls save_content_calls lift_calls)
    then show ?thesis
      unfolding gate_open [OF assms] using l1 by (simp add: and_then_def st Returns up)
  qed (use l1 in \<open>simp_all add: gate_open [OF assms] and_then_def st\<close>)
qed

text \<open>
  C8, as the code has it. A mutating handler gets past the authorization dependency
  exactly when the Authorization header is there and is the text \<^verbatim>\<open>Bearer\<close>, a space
  and the configured token; then the hero-video handler reaches its store. With any
  other header value the request fails with status 401, and with no header at all it
  fails with the framework's validation error; in both cases the state is as before:
  nothing stored, nothing saved.
\<close>

theorem auth_gate:
  "(depends_verify_token cfg header = Inr () \<longleftrightarrow> header = Some (''Bearer '' @ ADMIN_TOKEN cfg))
   \<and> (header = Some (''Bearer '' @ ADMIN_TOKEN cfg) \<longrightarrow>
        length (calls s) < length (calls (snd (upload_hero_video cfg w header file s))))
   \<and> (header \<noteq> Some (''Bearer '' @ ADMIN_TOKEN cfg) \<longrightarrow>
        upload_hero_video cfg w header file s =
          (Raises (case header of None \<Rightarrow> RequestValidationError
                                | Some a \<Rightarrow> HTTPException 401 ''Unauthorized''), s)
        \<and> upload_slot_image cfg w header slot_key file s =
          (Raises (case header of None \<Rightarrow> RequestValidationError
                                | Some a \<Rightarrow> HTTPException 401 ''Unauthorized''), s)
        \<and> upload_gallery_image cfg w header category file s =
          (Raises (case header of None \<Rightarrow> RequestValidationError
                                | Some a \<Rightarrow> HTTPException 401 ''Unauthorized''), s)
        \<and> delete_gallery_image cfg w header item_id s =
          (Raises (case header of None \<Rightarrow> RequestValidationError
                                | Some a \<Rightarrow> HTTPException 401 ''Unauthorized''), s))"
  using depends_verify_token_iff [of cfg header] hero_video_stores [of header cfg s w "file"]
    gate_closed [OF depends_verify_token_fails, of header cfg]
  by blast

text \<open>
  C8 as stated (every other header value, a missing header among them, gives status
  401) fails on a request without the header: the error is the validation error of the
  required header, not the 401 of \<^verbatim>\<open>verify_token\<close>.
\<close>

theorem missing_header_not_401:
  "upload_hero_video local_cfg world0 None video_file bootstrapped_state
     = (Raises RequestValidationError, bootstrapped_state)
   \<and> RequestValidationError \<noteq> HTTPException 401 ''Unauthorized''"
  by (simp add: gate_closed(1) depends_verify_token_def)

theorem auth_gate_witness:
  "depends_verify_token local_cfg (Some ''Bearer 123456'') = Inr ()
   \<and> length (calls bootstrapped_state)
       < length (calls (snd (upload_hero_video local_cfg world0 (Some ''Bearer 123456'') video_file
                               bootstrapped_state)))
   \<and> delete_gallery_image local_cfg world0 (Some ''Bearer 12345'') ''id1'' bootstrapped_state
       = (Raises (HTTPException 401 ''Unauthorized''), bootstrapped_state)
   \<and> upload_slot_image local_cfg world0 None ''about_img'' video_file bootstrapped_state
       = (Raises RequestValidationError, bootstrapped_state)"
proof -
  have t: "''Bearer '' @ ADMIN_TOKEN local_cfg = ''Bearer 123456''"
    by (simp add: local_cfg_def)
  show ?thesis
    using auth_gate [of local_cfg "Some ''Bearer 123456''" bootstrapped_state world0 video_file
            "''about_img''" "''damas''" "''id1''"]
      auth_gate [of local_cfg "Some ''Bearer 12345''" bootstrapped_state world0 video_file
            "''about_img''" "''damas''" "''id1''"]
      auth_gate [of local_cfg None bootstrapped_state world0 video_file
            "''about_img''" "''damas''" "''id1''"]
    unfolding t by simp
qed

text \<open>
  C6. A slot key outside the fixed set, or a category outside the five known ones, makes
  the request fail with the state as before (nothing stored, nothing saved, the
  persisted document untouched); for an authorized request the failure is the
  validation error of status 400.
\<close>

theorem invalid_input_rejected:
  "(slot_key \<notin> set FIXED_SLOT_KEYS \<longrightarrow>
      (\<exists>e. upload_slot_image cfg w header slot_key file s = (Raises e, s))
      \<and> (header = Some (''Bearer '' @ ADMIN_TOKEN cfg) \<longrightarrow>
           upload_slot_image cfg w header slot_key file s
             = (Raises (HTTPException 400 slot_key_invalido), s)))
   \<and> (category \<notin> set CATEGORIES \<longrightarrow>
      (\<exists>e. upload_gallery_image cfg w header category file s = (Raises e, s))
      \<and> (header = Some (''Bearer '' @ ADMIN_TOKEN cfg) \<longrightarrow>
           upload_gallery_image cfg w header category file s
             = (Raises (HTTPException 400 categoria_invalida), s)))"
proof (cases "header = Some (''Bearer '' @ ADMIN_TOKEN cfg)")
  case True
  then have d: "depends_verify_token cfg header = Inr ()"
    using depends_verify_token_iff by blast
  have a: "upload_slot_image cfg w header slot_key file s
             = (Raises (HTTPException 400 slot_key_invalido), s)"
    if "slot_key \<notin> set FIXED_SLOT_KEYS"
    using that by (simp add: upload_slot_image_def and_then_def lift_def VALID_SLOTS_fixed d)
  have b: "upload_gallery_image cfg w header category file s
             = (Raises (HTTPException 400 categoria_invalida), s)"
    if "category \<notin> set CATEGORIES"
    using that by (simp add: upload_gallery_image_def and_then_def lift_def not_file_def d)
  show ?thesis using a b by blast
next
  case False
  from gate_closed(2,3) [OF depends_verify_token_fails [OF False]]
  show ?thesis using False by blast
qed

theorem invalid_input_rejected_witness:
  "''not_a_real_slot'' \<notin> set FIXED_SLOT_KEYS \<and> ''invalid_category'' \<notin> set CATEGORIES
   \<and> upload_slot_image local_cfg world0 (Some ''Bearer 123456'') ''not_a_real_slot'' video_file
        bootstrapped_state = (Raises (HTTPException 400 slot_key_invalido), bootstrapped_state)
   \<and> upload_gallery_image local_cfg world0 (Some ''Bearer 123456'') ''invalid_category'' video_file
        bootstrapped_state = (Raises (HTTPException 400 categoria_invalida), bootstrapped_state)"
proof -
  have t: "''Bearer '' @ ADMIN_TOKEN local_cfg = ''Bearer 123456''"
    by (simp add: local_cfg_def)
  have a: "''not_a_real_slot'' \<notin> set FIXED_SLOT_KEYS"
    by (simp add: FIXED_SLOT_KEYS_def)
  have b: "''invalid_category'' \<notin> set CATEGORIES"
    by (simp add: CATEGORIES_def)
  show ?thesis
    using a b
      invalid_input_rejected [of "''not_a_real_slot''" local_cfg world0 "Some ''Bearer 123456''"
        video_file bootstrapped_state "''invalid_category''"]
    unfolding t by simp
qed

section \<open>Uploads on concrete states\<close>

lemma default_ok_bootstrapped: "default_ok (default_content bootstrapped_state)"
  by (simp add: bootstrapped_state_def init_state_def default_ok_DEFAULT)

text \<open>
  C7. The claim is that an upload whose file has zero bytes is rejected with a
  validation error before anything is stored or saved. The guard of the handlers is
  \<^verbatim>\<open>if not file\<close>, which an \<^verbatim>\<open>UploadFile\<close> never satisfies: an authorized upload of an
  empty hero video is answered with success, the empty file is written under the uploads
  directory, and the document is saved with its address.
\<close>

theorem empty_file_accepted:
  "fst (upload_hero_video local_cfg world0 (Some ''Bearer 123456'') empty_file bootstrapped_state)
     = Returns (JObj [(''url'', JStr ''/uploads/0f_a.mp4''), (''public_id'', JStr ''0f_a.mp4''),
                      (''message'', JStr ''Hero video actualizado'')])
   \<and> calls (snd (upload_hero_video local_cfg world0 (Some ''Bearer 123456'') empty_file
                    bootstrapped_state))
     = [LocalWrite ''0f_a.mp4'' [],
        Save (JObj [(''heroVideo'', JStr ''/uploads/0f_a.mp4''),
                    (''slots'', JObj (map (\<lambda>k. (k, JNull)) FIXED_SLOT_KEYS)),
                    (''gallery'', JArr [])])]
   \<and> uploads (snd (upload_hero_video local_cfg world0 (Some ''Bearer 123456'') empty_file
                      bootstrapped_state))
     = [(''0f_a.mp4'', [])]"
proof -
  have h: "Some ''Bearer 123456'' = Some (''Bearer '' @ ADMIN_TOKEN local_cfg)"
    by (simp add: local_cfg_def)
  let ?s1 = "init_state\<lparr>content_file := Parses DEFAULT_CONTENT, default_content := DEFAULT_CONTENT,
                lock_held := False, uploads := [(''0f_a.mp4'', [])],
                calls := [LocalWrite ''0f_a.mp4'' []]\<rparr>"
  have st: "store local_cfg world0 ''thesecretspot/hero/api'' ''video'' empty_file bootstrapped_state
              = (Returns (JStr ''/uploads/0f_a.mp4'', JStr ''0f_a.mp4''), ?s1)"
    by (simp add: store_def Let_def local_cfg_def world0_def empty_file_def bootstrapped_state_def
          init_state_def)
  show ?thesis
    unfolding gate_open [OF h] and_then_def st
    by (simp add: load_content_parses merge_defaults_def setitem_ref_def deref_def assign_def
          save_content_def with_LOCK_def lift_def DEFAULT_CONTENT_def FIXED_SLOT_KEYS_def
          init_state_def)
qed

lemma after_upload:
  "after_upload_state =
     \<lparr>content_file = Parses (JObj [(''heroVideo'', JStr ''/uploads/0f_v.mp4''),
                     (''slots'', JObj (map (\<lambda>k. (k, JNull)) FIXED_SLOT_KEYS)),
                     (''gallery'', JArr [])]),
      default_content = JObj [(''heroVideo'', JStr ''/uploads/0f_v.mp4''),
                     (''slots'', JObj (map (\<lambda>k. (k, JNull)) FIXED_SLOT_KEYS)),
                     (''gallery'', JArr [])],
      lock_held = False,
      uploads = [(''0f_v.mp4'', [86, 73, 68, 69, 79])],
      calls = [LocalWrite ''0f_v.mp4'' [86, 73, 68, 69, 79],
               Save (JObj [(''heroVideo'', JStr ''/uploads/0f_v.mp4''),
                     (''slots'', JObj (map (\<lambda>k. (k, JNull)) FIXED_SLOT_KEYS)),
                     (''gallery'', JArr [])])]\<rparr>"
proof -
  have h: "Some ''Bearer 123456'' = Some (''Bearer '' @ ADMIN_TOKEN local_cfg)"
    by (simp add: local_cfg_def)
  let ?s1 = "init_state\<lparr>content_file := Unparseable ''{'', default_content := DEFAULT_CONTENT,
                lock_held := False, uploads := [(''0f_v.mp4'', [86, 73, 68, 69, 79])],
                calls := [LocalWrite ''0f_v.mp4'' [86, 73, 68, 69, 79]]\<rparr>"
  have st: "store local_cfg world0 ''thesecretspot/hero/api'' ''video'' video_file corrupt_state
              = (Returns (JStr ''/uploads/0f_v.mp4'', JStr ''0f_v.mp4''), ?s1)"
    by (simp add: store_def Let_def local_cfg_def world0_def video_file_def corrupt_state_def
          init_state_def)
  have ld: "load_content ?s1 = (Returns SharedDefault, ?s1)"
    by (rule load_content_unparseable [where t = "''{''"]) (simp_all add: default_ok_DEFAULT)
  show ?thesis
    unfolding after_upload_state_def gate_open [OF h] and_then_def st
    by (simp add: ld)
       (simp add: setitem_ref_def deref_def assign_def save_content_def with_LOCK_def lift_def
          DEFAULT_CONTENT_def init_state_def)
qed

text \<open>
  C4. The claim is that a load of a file that does not parse returns the default
  document, with no hero video, and leaves the file alone. The file is left alone, and
  on the initial state the default document is returned; but the load returns the very
  object bound to \<^verbatim>\<open>DEFAULT_CONTENT\<close>, which the upload handler then mutates. After one
  authorized upload on such a file, a later load of a file that does not parse returns
  a document whose hero video is the uploaded one.
\<close>

theorem default_document_mutated:
  "load_content corrupt_state = (Returns SharedDefault, corrupt_state)
   \<and> deref corrupt_state SharedDefault = DEFAULT_CONTENT
   \<and> load_content corrupt_again_state = (Returns SharedDefault, corrupt_again_state)
   \<and> content_file corrupt_again_state = Unparseable ''{''
   \<and> deref corrupt_again_state SharedDefault =
        JObj [(''heroVideo'', JStr ''/uploads/0f_v.mp4''),
              (''slots'', JObj (map (\<lambda>k. (k, JNull)) FIXED_SLOT_KEYS)),
              (''gallery'', JArr [])]
   \<and> deref corrupt_again_state SharedDefault \<noteq> DEFAULT_CONTENT"
proof -
  have a: "load_content corrupt_state = (Returns SharedDefault, corrupt_state)"
    by (rule load_content_unparseable [where t = "''{''"])
       (simp_all add: corrupt_state_def init_state_def default_ok_DEFAULT)
  have b: "deref corrupt_state SharedDefault = DEFAULT_CONTENT"
    by (simp add: deref_def corrupt_state_def init_state_def)
  have c: "load_content corrupt_again_state = (Returns SharedDefault, corrupt_again_state)"
    by (rule load_content_unparseable [where t = "''{''"])
       (simp_all add: corrupt_again_state_def after_upload default_ok_def slot_keys_def comp_def)
  have d: "content_file corrupt_again_state = Unparseable ''{''"
    by (simp add: corrupt_again_state_def)
  have e: "deref corrupt_again_state SharedDefault =
        JObj [(''heroVideo'', JStr ''/uploads/0f_v.mp4''),
              (''slots'', JObj (map (\<lambda>k. (k, JNull)) FIXED_SLOT_KEYS)),
              (''gallery'', JArr [])]"
    by (simp add: deref_def corrupt_again_state_def after_upload)
  have f: "deref corrupt_again_state SharedDefault \<noteq> DEFAULT_CONTENT"
    unfolding e by (simp add: DEFAULT_CONTENT_def)
  show ?thesis using a b c d e f by blast
qed

section \<open>The default object keeps its shape\<close>

text \<open>
  Every handler leaves the object bound to \<^verbatim>\<open>DEFAULT_CONTENT\<close> a dict with the twelve
  slot keys, a gallery and a hero video, whatever the request and the reply of the
  outside world: the hypothesis on the default object in the theorems of this theory
  holds in every state the handlers can reach from the initial one.
\<close>

lemma delete_media_frame:
  "content_file (delete_media cfg w item s) = content_file s"
  "default_content (delete_media cfg w item s) = default_content s"
  "lock_held (delete_media cfg w item s) = lock_held s"
  by (simp_all add: delete_media_def Let_def split: sum.splits json.splits option.splits)

lemma and_then_keeps:
  assumes "default_ok (default_content (snd (m s)))"
    and "\<And>x s'. default_ok (default_content s') \<Longrightarrow> default_ok (default_content (snd (f x s')))"
  shows "default_ok (default_content (snd (and_then m f s)))"
proof (cases "m s")
  case (Pair r s1)
  have s1: "default_ok (default_content s1)"
    using assms(1) Pair by simp
  show ?thesis
  proof (cases r)
    case (Returns x)
    show ?thesis
      using assms(2) [OF s1, of x] by (simp add: and_then_def Pair Returns)
  qed (use s1 in \<open>simp_all add: and_then_def Pair\<close>)
qed

lemma load_content_default:
  assumes "default_ok (default_content s)"
  shows "default_content (snd (load_content s)) = default_content s"
proof (cases "lock_held s")
  case True
  then show ?thesis by (simp add: load_content_held)
next
  case False
  show ?thesis
  proof (cases "content_file s")
    case Absent
    then show ?thesis by (simp add: load_content_absent [OF Absent False])
  next
    case (Unparseable t)
    then show ?thesis by (simp add: load_content_unparseable [OF Unparseable False assms])
  next
    case (Parses d)
    then show ?thesis
      by (simp add: load_content_parses [OF Parses False] split: sum.splits)
  qed
qed

lemma save_content_default: "default_content (snd (save_content d s)) = default_content s"
  by (simp add: save_content_def with_LOCK_def)

lemma store_default: "default_content (snd (store cfg w folder rt file s)) = default_content s"
  by (simp add: store_def Let_def split: cloudinary_reply.splits option.splits)

lemma lift_state: "snd (lift r s) = s"
  by (simp add: lift_def split: sum.splits)

lemma setitem_ref_keeps:
  assumes "default_ok (default_content s)" and "k \<noteq> ''slots''"
  shows "default_ok (default_content (snd (setitem_ref r k v s)))"
proof (cases r)
  case SharedDefault
  from default_ok_D [OF assms(1)] obtain kvs ds where
    dc: "default_content s = JObj kvs" and sl: "map_of kvs ''slots'' = Some (JObj ds)"
    and ds: "map fst ds = FIXED_SLOT_KEYS"
    and g: "''gallery'' \<in> set (map fst kvs)" and h: "''heroVideo'' \<in> set (map fst kvs)"
    by blast
  have "default_ok (JObj (dict_set k v kvs))"
    using sl ds g h assms(2)
    by (simp add: default_ok_def slot_keys_def map_of_dict_set dict_set_key_set)
  then show ?thesis
    by (simp add: setitem_ref_def deref_def assign_def SharedDefault dc)
next
  case (Fresh d)
  then show ?thesis
    using assms(1) by (simp add: setitem_ref_def deref_def assign_def split: sum.splits)
qed

lemma setitem_slots_keeps:
  assumes "default_ok (default_content s)"
    and "py_getitem (deref s r) ''slots'' = Inr slots"
    and "py_setitem slots slot_key url = Inr slots'"
    and "slot_key \<in> set FIXED_SLOT_KEYS"
  shows "default_ok (default_content (snd (setitem_ref r ''slots'' slots' s)))"
proof (cases r)
  case SharedDefault
  from default_ok_D [OF assms(1)] obtain kvs ds where
    dc: "default_content s = JObj kvs" and sl: "map_of kvs ''slots'' = Some (JObj ds)"
    and ds: "map fst ds = FIXED_SLOT_KEYS"
    and g: "''gallery'' \<in> set (map fst kvs)" and h: "''heroVideo'' \<in> set (map fst kvs)"
    by blast
  have slots: "slots = JObj ds"
    using assms(2) by (simp add: deref_def SharedDefault dc sl)
  have slots': "slots' = JObj (dict_set slot_key url ds)"
    using assms(3) unfolding slots by simp
  have keys: "map fst (dict_set slot_key url ds) = FIXED_SLOT_KEYS"
    unfolding dict_set_keys using assms(4) ds by simp
  have "default_ok (JObj (dict_set ''slots'' slots' kvs))"
    using keys g h
    by (simp add: default_ok_def slot_keys_def map_of_dict_set dict_set_key_set slots')
  then show ?thesis
    by (simp add: setitem_ref_def deref_def assign_def SharedDefault dc)
next
  case (Fresh d)
  then show ?thesis
    using assms(1) by (simp add: setitem_ref_def deref_def assign_def split: sum.splits)
qed

lemma save_step_keeps:
  assumes "default_ok (default_content s)"
  shows "default_ok (default_content (snd (and_then (\<lambda>s. save_content (deref s data) s)
           (\<lambda>_. lift r) s)))"
  by (rule and_then_keeps) (simp_all add: save_content_default lift_state assms)

lemma upload_hero_video_keeps:
  assumes "default_ok (default_content s)"
  shows "default_ok (default_content (snd (upload_hero_video cfg w header file s)))"
proof (cases "depends_verify_token cfg header")
  case (Inl e)
  then show ?thesis using assms by (simp add: gate_closed(1))
next
  case (Inr u)
  have "default_ok (default_content (snd (
          and_then (store cfg w ''thesecretspot/hero/api'' ''video'' file) (\<lambda>(url, public_id).
           and_then load_content (\<lambda>data.
           and_then (setitem_ref data ''heroVideo'' url) (\<lambda>data.
           and_then (\<lambda>s. save_content (deref s data) s) (\<lambda>_.
             lift (Inr (JObj [(''url'', url), (''public_id'', public_id),
                              (''message'', JStr ''Hero video actualizado'')])))))) s)))"
  proof (rule and_then_keeps)
    show "default_ok (default_content (snd (store cfg w ''thesecretspot/hero/api'' ''video'' file s)))"
      by (simp add: store_default assms)
  next
    fix x :: "json \<times> json" and s' :: state
    assume ok: "default_ok (default_content s')"
    obtain url public_id where x: "x = (url, public_id)" by (cases x)
    show "default_ok (default_content (snd ((case x of (url, public_id) \<Rightarrow>
           and_then load_content (\<lambda>data.
           and_then (setitem_ref data ''heroVideo'' url) (\<lambda>data.
           and_then (\<lambda>s. save_content (deref s data) s) (\<lambda>_.
             lift (Inr (JObj [(''url'', url), (''public_id'', public_id),
                              (''message'', JStr ''Hero video actualizado'')])))))) s')))"
      unfolding x prod.case
      by (intro and_then_keeps save_step_keeps)
         (simp_all add: load_content_default setitem_ref_keeps ok)
  qed
  then show ?thesis
    using Inr by (simp add: gate_open depends_verify_token_iff)
qed

lemma upload_gallery_image_keeps:
  assumes "default_ok (default_content s)"
  shows "default_ok (default_content (snd (upload_gallery_image cfg w header category file s)))"
proof (cases "depends_verify_token cfg header")
  case (Inl e)
  then show ?thesis using assms by (simp add: gate_closed(3))
next
  case (Inr u)
  show ?thesis
  proof (cases "category \<in> set CATEGORIES")
    case False
    then show ?thesis
      using assms Inr by (simp add: upload_gallery_image_def and_then_def lift_def not_file_def)
  next
    case True
    have tail: "default_ok (default_content (snd (
            and_then load_content (\<lambda>data.
            and_then (\<lambda>s. lift (py_getitem (deref s data) ''gallery'') s) (\<lambda>gallery.
            and_then (lift (py_append gallery item)) (\<lambda>gallery'.
            and_then (setitem_ref data ''gallery'' gallery') (\<lambda>data.
            and_then (\<lambda>s. save_content (deref s data) s) (\<lambda>_. lift r))))) s')))"
      if "default_ok (default_content s')" for s' :: state and item and r :: "exn + json"
      by (intro and_then_keeps save_step_keeps)
         (simp_all add: load_content_default setitem_ref_keeps lift_state that)
    have "default_ok (default_content (snd (
            and_then (store cfg w (''thesecretspot/gallery/'' @ category) ''image'' file) (\<lambda>x.
              case x of (url, public_id) \<Rightarrow>
                let item = JObj [(''id'', JStr (uuid_str w)), (''url'', url),
                                 (''public_id'', public_id), (''category'', JStr category)]
                in
                and_then load_content (\<lambda>data.
                and_then (\<lambda>s. lift (py_getitem (deref s data) ''gallery'') s) (\<lambda>gallery.
                and_then (lift (py_append gallery item)) (\<lambda>gallery'.
                and_then (setitem_ref data ''gallery'' gallery') (\<lambda>data.
                and_then (\<lambda>s. save_content (deref s data) s) (\<lambda>_.
                  lift (Inr (JObj [(''item'', item), (''message'', JStr anadida_a_galeria)])))))))) s)))"
    proof (rule and_then_keeps)
      show "default_ok (default_content (snd (store cfg w (''thesecretspot/gallery/'' @ category)
                ''image'' file s)))"
        by (simp add: store_default assms)
    next
      fix x :: "json \<times> json" and s' :: state
      assume ok: "default_ok (default_content s')"
      obtain url public_id where x: "x = (url, public_id)" by (cases x)
      show "default_ok (default_content (snd ((case x of (url, public_id) \<Rightarrow>
                let item = JObj [(''id'', JStr (uuid_str w)), (''url'', url),
                                 (''public_id'', public_id), (''category'', JStr category)]
                in
                and_then load_content (\<lambda>data.
                and_then (\<lambda>s. lift (py_getitem (deref s data) ''gallery'') s) (\<lambda>gallery.
                and_then (lift (py_append gallery item)) (\<lambda>gallery'.
                and_then (setitem_ref data ''gallery'' gallery') (\<lambda>data.
                and_then (\<lambda>s. save_content (deref s data) s) (\<lambda>_.
                  lift (Inr (JObj [(''item'', item), (''message'', JStr anadida_a_galeria)])))))))) s')))"
        unfolding x prod.case Let_def by (rule tail [OF ok])
    qed
    then show ?thesis
      using Inr True
      by (simp add: upload_gallery_image_def and_then_def lift_def not_file_def)
  qed
qed

lemma upload_slot_image_keeps:
  assumes "default_ok (default_content s)"
  shows "default_ok (default_content (snd (upload_slot_image cfg w header slot_key file s)))"
proof (cases "depends_verify_token cfg header")
  case (Inl e)
  then show ?thesis using assms by (simp add: gate_closed(2))
next
  case auth: (Inr u)
  show ?thesis
  proof (cases "slot_key \<in> VALID_SLOTS")
    case False
    then show ?thesis
      using assms auth by (simp add: upload_slot_image_def and_then_def lift_def)
  next
    case True
    then have mem: "slot_key \<in> set FIXED_SLOT_KEYS"
      by (simp add: VALID_SLOTS_fixed)
    have tail: "default_ok (default_content (snd (
            and_then load_content (\<lambda>data.
            and_then (\<lambda>s. lift (py_getitem (deref s data) ''slots'') s) (\<lambda>slots.
            and_then (lift (py_setitem slots slot_key url)) (\<lambda>slots'.
            and_then (setitem_ref data ''slots'' slots') (\<lambda>data.
            and_then (\<lambda>s. save_content (deref s data) s) (\<lambda>_. lift r))))) s')))"
      if ok': "default_ok (default_content s')" for s' :: state and url and r :: "exn + json"
    proof (rule and_then_keeps)
      show "default_ok (default_content (snd (load_content s')))"
        by (simp add: load_content_default ok')
    next
      fix data and t :: state
      assume ok: "default_ok (default_content t)"
      show "default_ok (default_content (snd (
              and_then (\<lambda>s. lift (py_getitem (deref s data) ''slots'') s) (\<lambda>slots.
              and_then (lift (py_setitem slots slot_key url)) (\<lambda>slots'.
              and_then (setitem_ref data ''slots'' slots') (\<lambda>data.
              and_then (\<lambda>s. save_content (deref s data) s) (\<lambda>_. lift r)))) t)))"
      proof (cases "py_getitem (deref t data) ''slots''")
        case (Inl e)
        then show ?thesis using ok by (simp add: and_then_def lift_def)
      next
        case get: (Inr slots)
        show ?thesis
        proof (cases "py_setitem slots slot_key url")
          case (Inl e)
          then show ?thesis using ok get by (simp add: and_then_def lift_def)
        next
          case set: (Inr slots')
          have "default_ok (default_content (snd (
                  and_then (setitem_ref data ''slots'' slots') (\<lambda>data.
                  and_then (\<lambda>s. save_content (deref s data) s) (\<lambda>_. lift r)) t)))"
            by (rule and_then_keeps)
               (rule setitem_slots_keeps [OF ok get set mem], rule save_step_keeps)
          then show ?thesis
            using get set by (simp add: and_then_def lift_def)
        qed
      qed
    qed
    have "default_ok (default_content (snd (
            and_then (store cfg w (''thesecretspot/slots/'' @ slot_key @ ''/api'') ''image'' file)
              (\<lambda>x. case x of (url, public_id) \<Rightarrow>
                and_then load_content (\<lambda>data.
                and_then (\<lambda>s. lift (py_getitem (deref s data) ''slots'') s) (\<lambda>slots.
                and_then (lift (py_setitem slots slot_key url)) (\<lambda>slots'.
                and_then (setitem_ref data ''slots'' slots') (\<lambda>data.
                and_then (\<lambda>s. save_content (deref s data) s) (\<lambda>_.
                  lift (Inr (JObj [(''slot_key'', JStr slot_key), (''url'', url),
                                   (''public_id'', public_id),
                                   (''message'', JStr seccion_actualizada)])))))))) s)))"
    proof (rule and_then_keeps)
      show "default_ok (default_content (snd (store cfg w
                (''thesecretspot/slots/'' @ slot_key @ ''/api'') ''image'' file s)))"
        by (simp add: store_default assms)
    next
      fix x :: "json \<times> json" and s' :: state
      assume ok: "default_ok (default_content s')"
      obtain url public_id where x: "x = (url, public_id)" by (cases x)
      show "default_ok (default_content (snd ((case x of (url, public_id) \<Rightarrow>
                and_then load_content (\<lambda>data.
                and_then (\<lambda>s. lift (py_getitem (deref s data) ''slots'') s) (\<lambda>slots.
                and_then (lift (py_setitem slots slot_key url)) (\<lambda>slots'.
                and_then (setitem_ref data ''slots'' slots') (\<lambda>data.
                and_then (\<lambda>s. save_content (deref s data) s) (\<lambda>_.
                  lift (Inr (JObj [(''slot_key'', JStr slot_key), (''url'', url),
                                   (''public_id'', public_id),
                                   (''message'', JStr seccion_actualizada)])))))))) s')))"
        unfolding x prod.case by (rule tail [OF ok])
    qed
    then show ?thesis
      using auth True
      by (simp add: upload_slot_image_def and_then_def lift_def not_file_def)
  qed
qed

lemma delete_gallery_image_keeps:
  assumes "default_ok (default_content s)"
  shows "default_ok (default_content (snd (delete_gallery_image cfg w header item_id s)))"
proof (cases "depends_verify_token cfg header")
  case (Inl e)
  then show ?thesis using assms by (simp add: gate_closed(4))
next
  case auth: (Inr u)
  have found: "default_ok (default_content (snd (
            and_then (lift (py_index gallery i)) (\<lambda>item.
            and_then (\<lambda>s. (Returns (), delete_media cfg w item s)) (\<lambda>_.
            and_then (lift (py_delitem gallery i)) (\<lambda>gallery'.
            and_then (setitem_ref data ''gallery'' gallery') (\<lambda>data.
            and_then (\<lambda>s. save_content (deref s data) s) (\<lambda>_. lift r))))) t)))"
    if "default_ok (default_content t)" for t :: state and gallery i data and r :: "exn + json"
    by (intro and_then_keeps save_step_keeps)
       (simp_all add: lift_state setitem_ref_keeps delete_media_frame that)
  have "default_ok (default_content (snd (
          and_then load_content (\<lambda>data.
          and_then (\<lambda>s. lift (py_getitem (deref s data) ''gallery'') s) (\<lambda>gallery.
          and_then (lift (py_iter gallery)) (\<lambda>elems.
          and_then (lift (find_idx item_id elems 0)) (\<lambda>idx.
            (case idx of
               None \<Rightarrow> lift (Inl (HTTPException 404 ''Imagen no encontrada''))
             | Some i \<Rightarrow>
                 and_then (lift (py_index gallery i)) (\<lambda>item.
                 and_then (\<lambda>s. (Returns (), delete_media cfg w item s)) (\<lambda>_.
                 and_then (lift (py_delitem gallery i)) (\<lambda>gallery'.
                 and_then (setitem_ref data ''gallery'' gallery') (\<lambda>data.
                 and_then (\<lambda>s. save_content (deref s data) s) (\<lambda>_.
                   lift (Inr (JObj [(''message'', JStr ''Imagen eliminada''),
                                    (''id'', JStr item_id)])))))))))))) s)))"
  proof (intro and_then_keeps)
    show "default_ok (default_content (snd (load_content s)))"
      by (simp add: load_content_default assms)
  next
    fix data and t :: state
    assume "default_ok (default_content t)"
    then show "default_ok (default_content (snd (lift (py_getitem (deref t data) ''gallery'') t)))"
      by (simp add: lift_state)
  next
    fix gallery and t :: state
    assume "default_ok (default_content t)"
    then show "default_ok (default_content (snd (lift (py_iter gallery) t)))"
      by (simp add: lift_state)
  next
    fix elems and t :: state
    assume "default_ok (default_content t)"
    then show "default_ok (default_content (snd (lift (find_idx item_id elems 0) t)))"
      by (simp add: lift_state)
  next
    fix data gallery and idx :: "nat option" and t :: state
    assume ok: "default_ok (default_content t)"
    show "default_ok (default_content (snd (
            (case idx of
               None \<Rightarrow> lift (Inl (HTTPException 404 ''Imagen no encontrada''))
             | Some i \<Rightarrow>
                 and_then (lift (py_index gallery i)) (\<lambda>item.
                 and_then (\<lambda>s. (Returns (), delete_media cfg w item s)) (\<lambda>_.
                 and_then (lift (py_delitem gallery i)) (\<lambda>gallery'.
                 and_then (setitem_ref data ''gallery'' gallery') (\<lambda>data.
                 and_then (\<lambda>s. save_content (deref s data) s) (\<lambda>_.
                   lift (Inr (JObj [(''message'', JStr ''Imagen eliminada''),
                                    (''id'', JStr item_id)])))))))) t)))"
    proof (cases idx)
      case None
      then show ?thesis using ok by (simp add: lift_state)
    next
      case (Some i)
      show ?thesis unfolding Some option.case by (rule found [OF ok])
    qed
  qed
  then show ?thesis
    using auth by (simp add: delete_gallery_image_def and_then_def lift_def)
qed

lemma read_handlers_keep:
  assumes "default_ok (default_content s)"
  shows "default_ok (default_content (snd (get_content s)))"
    and "default_ok (default_content (snd (get_gallery s)))"
  unfolding get_content_def get_gallery_def
  by (intro and_then_keeps; simp add: load_content_default lift_state assms)+

lemma default_ok_init: "default_ok (default_content init_state)"
  by (simp add: init_state_def default_ok_DEFAULT)

section \<open>A file that parses to something else than a dict\<close>

text \<open>
  The \<^verbatim>\<open>try\<close> of \<^verbatim>\<open>load_content\<close> covers opening and parsing only. A file that holds
  a JSON value which is not an object passes it, and the merge raises.
\<close>

lemma load_content_not_dict:
  assumes "content_file s = Parses d" and "\<And>kvs. d \<noteq> JObj kvs"
    and "\<not> lock_held s" and "default_ok (default_content s)"
  shows "load_content s = (Raises TypeError, s)"
proof -
  from default_ok_D [OF assms(4)] obtain kvs ds where
    "default_content s = JObj kvs" "map_of kvs ''slots'' = Some (JObj ds)"
    and ds: "map fst ds = FIXED_SLOT_KEYS"
    by blast
  then have g: "py_getitem (default_content s) ''slots'' = Inr (JObj ds)"
    by simp
  have ne: "ds \<noteq> []" using ds FIXED_nonempty by auto
  have "merge_defaults (default_content s) d = Inl TypeError"
    by (simp add: merge_defaults_def g merge_slots_nondict [OF assms(2) ne])
  then show ?thesis
    by (simp add: load_content_parses [OF assms(1,3)])
qed

section \<open>Deleting a gallery item\<close>


















end
